theory Spec2Isabelle
  imports Complex_Main
begin

section \<open>Python exceptions as values\<close>

text \<open>
  Every \<^verbatim>\<open>raise\<close>, failed \<^verbatim>\<open>assert\<close> and out-of-range subscript of the
  modelled functions is a value of this type; a function that can raise returns
  \<open>error + 'a\<close>, with \<open>Inl\<close> for the exception.
\<close>

datatype error =
    ValueError string
  | AssertionError string
  | IndexError
  | KeyError string
  | TypeError
  | AttributeError
  | ValidationError string
  | ToolArgumentError string

section \<open>Subscripts\<close>

text \<open>
  Python's \<^verbatim>\<open>xs[0]\<close> and \<^verbatim>\<open>xs[-1]\<close>: both raise IndexError on an empty
  list.
\<close>

fun first :: "'a list \<Rightarrow> error + 'a" where
  "first [] = Inl IndexError"
| "first (x # _) = Inr x"

fun final :: "'a list \<Rightarrow> error + 'a" where
  "final [] = Inl IndexError"
| "final [x] = Inr x"
| "final (_ # x # xs) = final (x # xs)"

section \<open>Mistral: conversion of the common call parameters\<close>

text \<open>
  \<^verbatim>\<open>mirascope/core/mistral/_utils/_convert_common_params.py\<close>.
  A Python dict keeps its keys in insertion order and holds each key once, so a dict is
  an association list here; a value that may be \<^verbatim>\<open>None\<close> is an option.
\<close>

definition MISTRAL_PARAM_MAPPING :: "(string \<times> string) list" where
  "MISTRAL_PARAM_MAPPING =
     [(''temperature'', ''temperature''),
      (''max_tokens'', ''max_tokens''),
      (''top_p'', ''top_p''),
      (''seed'', ''random_seed''),
      (''stop'', ''stop'')]"

text \<open>
  The dict comprehension
  \<^verbatim>\<open>{MISTRAL_PARAM_MAPPING[key]: value for key, value in common_params.items()
     if key in MISTRAL_PARAM_MAPPING and value is not None}\<close>,
  one item at a time.
\<close>

fun convert_common_params :: "(string \<times> 'v option) list \<Rightarrow> (string \<times> 'v) list" where
  "convert_common_params [] = []"
| "convert_common_params ((key, val) # items) =
     (case (map_of MISTRAL_PARAM_MAPPING key, val) of
        (Some key', Some v) \<Rightarrow> (key', v) # convert_common_params items
      | _ \<Rightarrow> convert_common_params items)"

section \<open>Mistral: conversion of the message parameters\<close>

text \<open>
  \<^verbatim>\<open>mirascope/core/mistral/_utils/_convert_message_params.py\<close>.
  The content of a neutral message is a string or a list of parts; the conversion reads
  a part's \<^verbatim>\<open>type\<close> tag and, of a text part, its \<^verbatim>\<open>text\<close>.
\<close>

datatype part =
    TextPart string
  | ImagePart string string
  | ToolCallPart string string string
  | ToolResultPart string string

fun part_type :: "part \<Rightarrow> string" where
  "part_type (TextPart _) = ''text''"
| "part_type (ImagePart _ _) = ''image''"
| "part_type (ToolCallPart _ _ _) = ''tool_call''"
| "part_type (ToolResultPart _ _) = ''tool_result''"

datatype content = Str string | Parts "part list"

text \<open>
  A message is a neutral \<^verbatim>\<open>BaseMessageParam\<close> (role and content) or one of the
  provider's own four message classes, which the conversion passes through untouched.
  The type parameter is the content type of the neutral message: \<^typ>\<open>content\<close>
  before the conversion, a plain string after it. The provider's classes carry their
  text; an assistant or tool message may have none. (The provider's classes also accept
  a list of content chunks in place of the text; messages built that way are not
  covered.)
\<close>

datatype 'c message_param =
    BaseMessageParam string 'c
  | AssistantMessage "string option"
  | SystemMessage string
  | ToolMessage "string option"
  | UserMessage string

fun role :: "'c message_param \<Rightarrow> string" where
  "role (BaseMessageParam r _) = r"
| "role (AssistantMessage _) = ''assistant''"
| "role (SystemMessage _) = ''system''"
| "role (ToolMessage _) = ''tool''"
| "role (UserMessage _) = ''user''"

text \<open>
  The test of the loop on a part list, \<^verbatim>\<open>len(content) != 1 or content[0].type != "text"\<close>;
  \<^verbatim>\<open>or\<close> reads \<^verbatim>\<open>content[0]\<close> only when the list has exactly one part.
\<close>

definition not_one_text_part :: "part list \<Rightarrow> bool" where
  "not_one_text_part content = (length content \<noteq> 1 \<or> part_type (hd content) \<noteq> ''text'')"

text \<open>The attribute \<^verbatim>\<open>text\<close> of a part: only a text part has it.\<close>

fun part_text :: "part \<Rightarrow> error + string" where
  "part_text (TextPart t) = Inr t"
| "part_text _ = Inl AttributeError"

text \<open>The body of the loop of \<^verbatim>\<open>convert_message_params\<close>, for one message.\<close>

fun convert_message_param :: "content message_param \<Rightarrow> error + string message_param" where
  "convert_message_param (BaseMessageParam r (Str s)) = Inr (BaseMessageParam r s)"
| "convert_message_param (BaseMessageParam r (Parts content)) =
     (if not_one_text_part content
      then Inl (ValueError ''Mistral currently only supports text parts.'')
      else (case part_text (hd content) of
              Inl e \<Rightarrow> Inl e
            | Inr t \<Rightarrow> Inr (BaseMessageParam r t)))"
| "convert_message_param (AssistantMessage c) = Inr (AssistantMessage c)"
| "convert_message_param (SystemMessage c) = Inr (SystemMessage c)"
| "convert_message_param (ToolMessage c) = Inr (ToolMessage c)"
| "convert_message_param (UserMessage c) = Inr (UserMessage c)"

text \<open>The loop: the first message that raises ends the conversion.\<close>

fun convert_message_params ::
  "content message_param list \<Rightarrow> error + string message_param list" where
  "convert_message_params [] = Inr []"
| "convert_message_params (m # ms) =
     (case convert_message_param m of
        Inl e \<Rightarrow> Inl e
      | Inr m' \<Rightarrow>
          (case convert_message_params ms of
             Inl e \<Rightarrow> Inl e
           | Inr ms' \<Rightarrow> Inr (m' # ms')))"

text \<open>
  A message that the conversion refuses: a neutral message whose content is a part list
  that fails the test above.
\<close>

fun unsupported :: "content message_param \<Rightarrow> bool" where
  "unsupported (BaseMessageParam r (Parts content)) = not_one_text_part content"
| "unsupported _ = False"

section \<open>The chat completion wrapper\<close>

text \<open>
  \<^verbatim>\<open>mirascope/chat/types.py\<close>, class \<^verbatim>\<open>OpenAIChatCompletion\<close>. The records are
  the fields of the provider's response types that the wrapper reads.
\<close>

record Function =
  name :: string
  arguments :: string

record ChatCompletionMessageToolCall =
  call_id :: string
  function_of :: Function

record ChatCompletionMessage =
  message_content :: "string option"
  message_tool_calls :: "ChatCompletionMessageToolCall list option"

record Choice =
  message_of :: ChatCompletionMessage

record ChatCompletion =
  completion_choices :: "Choice list"

text \<open>
  A tool type is a class: its \<^verbatim>\<open>__name__\<close> and its class method
  \<^verbatim>\<open>from_tool_call\<close>, which builds the tool (of type \<open>'t\<close>) from a tool call or
  raises. The method lives in \<^verbatim>\<open>mirascope/chat/tools.py\<close>, outside the sources at
  hand, so it is a field of the class here.
\<close>

record 't tool_type =
  class_name :: string
  from_tool_call :: "ChatCompletionMessageToolCall \<Rightarrow> error + 't"

record 't OpenAIChatCompletion =
  completion :: ChatCompletion
  tool_types :: "'t tool_type list option"

definition message :: "'t OpenAIChatCompletion \<Rightarrow> error + ChatCompletionMessage" where
  "message self =
     (case first (completion_choices (completion self)) of
        Inl e \<Rightarrow> Inl e
      | Inr c \<Rightarrow> Inr (message_of c))"

definition tool_calls ::
  "'t OpenAIChatCompletion \<Rightarrow> error + ChatCompletionMessageToolCall list option" where
  "tool_calls self =
     (case message self of
        Inl e \<Rightarrow> Inl e
      | Inr m \<Rightarrow> Inr (message_tool_calls m))"

text \<open>
  The inner loop of \<^verbatim>\<open>tools\<close>: the first tool type whose name is the call's
  function name builds the tool, and the loop breaks; an exception of
  \<^verbatim>\<open>from_tool_call\<close> is raised again. \<open>None\<close>: no tool type matched.
\<close>

fun match_tool_type ::
  "'t tool_type list \<Rightarrow> ChatCompletionMessageToolCall \<Rightarrow> error + 't option" where
  "match_tool_type [] tool_call = Inr None"
| "match_tool_type (tt # tts) tool_call =
     (if name (function_of tool_call) = class_name tt
      then (case from_tool_call tt tool_call of
              Inl e \<Rightarrow> Inl e
            | Inr tool \<Rightarrow> Inr (Some tool))
      else match_tool_type tts tool_call)"

text \<open>The outer loop, with the list \<^verbatim>\<open>extracted_tools\<close> it appends to.\<close>

fun extract_tools ::
  "'t tool_type list \<Rightarrow> ChatCompletionMessageToolCall list \<Rightarrow> 't list \<Rightarrow> error + 't list" where
  "extract_tools tts [] extracted_tools = Inr extracted_tools"
| "extract_tools tts (tool_call # rest) extracted_tools =
     (case match_tool_type tts tool_call of
        Inl e \<Rightarrow> Inl e
      | Inr None \<Rightarrow> extract_tools tts rest extracted_tools
      | Inr (Some tool) \<Rightarrow> extract_tools tts rest (extracted_tools @ [tool]))"

text \<open>
  \<^verbatim>\<open>if not self.tool_types or not self.tool_calls: return None\<close>: a list is false
  when it is \<^verbatim>\<open>None\<close> or empty, and \<^verbatim>\<open>self.tool_calls\<close> is read (and may
  raise) only when \<^verbatim>\<open>self.tool_types\<close> is true.
\<close>

definition tools :: "'t OpenAIChatCompletion \<Rightarrow> error + 't list option" where
  "tools self =
     (case tool_types self of
        None \<Rightarrow> Inr None
      | Some [] \<Rightarrow> Inr None
      | Some (tt # tts) \<Rightarrow>
          (case tool_calls self of
             Inl e \<Rightarrow> Inl e
           | Inr None \<Rightarrow> Inr None
           | Inr (Some []) \<Rightarrow> Inr None
           | Inr (Some (tc # tcs)) \<Rightarrow>
               (case extract_tools (tt # tts) (tc # tcs) [] of
                  Inl e \<Rightarrow> Inl e
                | Inr extracted_tools \<Rightarrow> Inr (Some extracted_tools))))"

text \<open>
  \<^verbatim>\<open>if self.tools and len(self.tools) > 0: return self.tools[0]\<close>, else
  \<^verbatim>\<open>None\<close>.
\<close>

definition tool :: "'t OpenAIChatCompletion \<Rightarrow> error + 't option" where
  "tool self =
     (case tools self of
        Inl e \<Rightarrow> Inl e
      | Inr None \<Rightarrow> Inr None
      | Inr (Some []) \<Rightarrow> Inr None
      | Inr (Some (t # ts)) \<Rightarrow> Inr (Some t))"

text \<open>
  Two \<^verbatim>\<open>from_tool_call\<close> methods for concrete tool classes: one that accepts every
  call and builds the tool (the class name with the call's arguments), one whose
  validation fails.
\<close>

fun accept_tool_call ::
  "string \<Rightarrow> ChatCompletionMessageToolCall \<Rightarrow> error + string \<times> string" where
  "accept_tool_call cls tool_call = Inr (cls, arguments (function_of tool_call))"

fun reject_tool_call ::
  "string \<Rightarrow> ChatCompletionMessageToolCall \<Rightarrow> error + string \<times> string" where
  "reject_tool_call cls tool_call = Inl (ValidationError cls)"

text \<open>
  Construction. The class declares the two fields and neither a validator nor an
  initialiser of its own: \<^verbatim>\<open>OpenAIChatCompletion(completion=..., tool_types=...)\<close>
  stores the two values and reads no tool call.
\<close>

definition new_OpenAIChatCompletion ::
  "ChatCompletion \<Rightarrow> 't tool_type list option \<Rightarrow> error + 't OpenAIChatCompletion" where
  "new_OpenAIChatCompletion completion' tool_types' =
     Inr \<lparr>completion = completion', tool_types = tool_types'\<rparr>"

section \<open>The chunk wrappers\<close>

subsection \<open>OpenAI\<close>

text \<open>
  \<^verbatim>\<open>mirascope/core/openai/call_response_chunk.py\<close>. The wrapper declares its chunk as
  \<^verbatim>\<open>SkipValidation[ChatCompletionChunk]\<close>: the chunk is not validated against the
  provider's type, so a field that the provider omits is \<^verbatim>\<open>None\<close>. The records are
  the fields that the wrapper reads, each of them optional; the wrapper's own tests
  (\<^verbatim>\<open>if self.chunk.choices\<close>, \<^verbatim>\<open>delta is not None\<close>, \<^verbatim>\<open>hasattr\<close>) are written for
  such chunks. The attribute \<^verbatim>\<open>usage\<close> may be missing altogether: the outer option
  is the attribute, the inner one its value.
\<close>

record ChoiceDelta =
  delta_content :: "string option"

record ChunkChoice =
  delta :: "ChoiceDelta option"
  finish_reason :: "string option"

record CompletionUsage =
  prompt_tokens :: int
  completion_tokens :: int

record ChatCompletionChunk =
  chunk_id :: "string option"
  chunk_model :: "string option"
  chunk_choices :: "ChunkChoice list option"
  chunk_usage :: "CompletionUsage option option"

text \<open>
  \<^verbatim>\<open>content\<close>: \<^verbatim>\<open>if self.chunk.choices\<close> is false for \<^verbatim>\<open>None\<close> and for the empty
  list, and only otherwise is \<^verbatim>\<open>choices[0]\<close> read. A string is false when it is
  empty.
\<close>

definition openai_content :: "ChatCompletionChunk \<Rightarrow> error + string" where
  "openai_content self =
     (case (case chunk_choices self of
              None \<Rightarrow> Inr None
            | Some [] \<Rightarrow> Inr None
            | Some choices \<Rightarrow>
                (case first choices of
                   Inl e \<Rightarrow> Inl e
                 | Inr c \<Rightarrow> Inr (delta c))) of
        Inl e \<Rightarrow> Inl e
      | Inr None \<Rightarrow> Inr ''''
      | Inr (Some d) \<Rightarrow>
          (case delta_content d of
             None \<Rightarrow> Inr ''''
           | Some s \<Rightarrow> if s \<noteq> '''' then Inr s else Inr ''''))"

text \<open>
  \<^verbatim>\<open>finish_reasons\<close>: the comprehension iterates \<^verbatim>\<open>self.chunk.choices\<close> with no
  test before it; iterating \<^verbatim>\<open>None\<close> raises TypeError.
\<close>

definition openai_finish_reasons :: "ChatCompletionChunk \<Rightarrow> error + string list" where
  "openai_finish_reasons self =
     (case chunk_choices self of
        None \<Rightarrow> Inl TypeError
      | Some choices \<Rightarrow>
          Inr [r. c \<leftarrow> choices, Some r \<leftarrow> [finish_reason c], r \<noteq> ''''])"

definition openai_model :: "ChatCompletionChunk \<Rightarrow> string option" where
  "openai_model self = chunk_model self"

definition openai_id :: "ChatCompletionChunk \<Rightarrow> string option" where
  "openai_id self = chunk_id self"

definition openai_usage :: "ChatCompletionChunk \<Rightarrow> CompletionUsage option" where
  "openai_usage self =
     (case chunk_usage self of
        Some (Some u) \<Rightarrow> Some u
      | _ \<Rightarrow> None)"

definition openai_input_tokens :: "ChatCompletionChunk \<Rightarrow> int option" where
  "openai_input_tokens self =
     (case openai_usage self of
        Some u \<Rightarrow> Some (prompt_tokens u)
      | None \<Rightarrow> None)"

definition openai_output_tokens :: "ChatCompletionChunk \<Rightarrow> int option" where
  "openai_output_tokens self =
     (case openai_usage self of
        Some u \<Rightarrow> Some (completion_tokens u)
      | None \<Rightarrow> None)"

subsection \<open>Cohere\<close>

text \<open>
  \<^verbatim>\<open>mirascope/core/cohere/call_response_chunk.py\<close>. A streamed chat response is one
  of the provider's event classes; the wrapper tells three of them apart with
  \<^verbatim>\<open>isinstance\<close> and treats every other event alike. Token counts are the provider's
  floats, passed through unchanged.
\<close>

record ApiMetaBilledUnits =
  input_tokens :: "real option"
  output_tokens :: "real option"

record ApiMeta =
  billed_units :: "ApiMetaBilledUnits option"

record NonStreamedChatResponse =
  generation_id :: "string option"
  meta :: "ApiMeta option"

datatype StreamedChatResponse =
    StreamedChatResponse_StreamStart string
  | StreamedChatResponse_TextGeneration string
  | StreamedChatResponse_StreamEnd string NonStreamedChatResponse
  | StreamedChatResponse_Other string

fun cohere_content :: "StreamedChatResponse \<Rightarrow> string" where
  "cohere_content (StreamedChatResponse_TextGeneration text) = text"
| "cohere_content _ = ''''"

fun cohere_finish_reasons :: "StreamedChatResponse \<Rightarrow> string list option" where
  "cohere_finish_reasons (StreamedChatResponse_StreamEnd reason response) = Some [reason]"
| "cohere_finish_reasons _ = None"

fun cohere_model :: "StreamedChatResponse \<Rightarrow> string option" where
  "cohere_model _ = None"

fun cohere_id :: "StreamedChatResponse \<Rightarrow> string option" where
  "cohere_id (StreamedChatResponse_StreamStart gid) = Some gid"
| "cohere_id (StreamedChatResponse_StreamEnd reason response) = generation_id response"
| "cohere_id _ = None"

fun cohere_usage :: "StreamedChatResponse \<Rightarrow> ApiMetaBilledUnits option" where
  "cohere_usage (StreamedChatResponse_StreamEnd reason response) =
     (case meta response of
        Some m \<Rightarrow> billed_units m
      | None \<Rightarrow> None)"
| "cohere_usage _ = None"

definition cohere_input_tokens :: "StreamedChatResponse \<Rightarrow> real option" where
  "cohere_input_tokens self =
     (case cohere_usage self of
        Some u \<Rightarrow> input_tokens u
      | None \<Rightarrow> None)"

definition cohere_output_tokens :: "StreamedChatResponse \<Rightarrow> real option" where
  "cohere_output_tokens self =
     (case cohere_usage self of
        Some u \<Rightarrow> output_tokens u
      | None \<Rightarrow> None)"

section \<open>The call factory\<close>

text \<open>
  \<^verbatim>\<open>mirascope/core/base/_call_factory.py\<close>, the function \<^verbatim>\<open>base_call\<close> that
  \<^verbatim>\<open>call_factory\<close> returns. A tool, a response model, an output parser and a client
  are Python objects that \<^verbatim>\<open>base_call\<close> only tests and hands on; each is named by a
  string here, and an argument that may be \<^verbatim>\<open>None\<close> is an option. A function or a
  class is a true value in Python, so \<^verbatim>\<open>if output_parser\<close> and
  \<^verbatim>\<open>if response_model\<close> ask whether the argument is not \<^verbatim>\<open>None\<close>.

  The decorator that \<^verbatim>\<open>base_call\<close> returns is \<^verbatim>\<open>partial(factory(...), ...)\<close>: one
  of the four factories with the keyword arguments bound to it. The provider's
  \<^verbatim>\<open>setup_call\<close> is an argument of the factory; it runs when the decorated function
  is called, never inside \<^verbatim>\<open>base_call\<close>.
\<close>

type_synonym call_params = "(string \<times> string) list"

datatype decorator =
    structured_stream_factory
      \<comment> \<open>model, response_model, json_mode, client, call_params\<close>
      string string bool "string option" call_params
  | extract_factory
      \<comment> \<open>model, response_model, output_parser, json_mode, client, call_params\<close>
      string string "string option" bool "string option" call_params
  | stream_factory
      \<comment> \<open>model, tools, json_mode, client, call_params\<close>
      string "string list option" bool "string option" call_params
  | create_factory
      \<comment> \<open>model, tools, output_parser, json_mode, client, call_params\<close>
      string "string list option" "string option" bool "string option" call_params

text \<open>
  The first argument is \<^verbatim>\<open>default_call_params\<close>, a variable of the enclosing
  \<^verbatim>\<open>call_factory\<close>. The message of the error is the source's, whose back quotes are
  written as character codes.
\<close>

definition base_call ::
  "call_params \<Rightarrow> string \<Rightarrow> bool \<Rightarrow> string list option \<Rightarrow> string option \<Rightarrow> string option \<Rightarrow>
     bool \<Rightarrow> string option \<Rightarrow> call_params option \<Rightarrow> error + decorator" where
  "base_call default_call_params model stream tools' response_model output_parser json_mode
       client call_params =
     (if stream \<and> output_parser \<noteq> None
      then Inl (ValueError
                  (''Cannot use '' @ CHR 0x60 # ''output_parser'' @ CHR 0x60 # '' with '' @
                   CHR 0x60 # ''stream=True'' @ CHR 0x60 # ''.''))
      else
        (let call_params =
               (case call_params of None \<Rightarrow> default_call_params | Some p \<Rightarrow> p)
         in case response_model of
              Some rm \<Rightarrow>
                if stream
                then Inr (structured_stream_factory model rm json_mode client call_params)
                else Inr (extract_factory model rm output_parser json_mode client call_params)
            | None \<Rightarrow>
                if stream
                then Inr (stream_factory model tools' json_mode client call_params)
                else Inr (create_factory model tools' output_parser json_mode client
                            call_params)))"

section \<open>The setup stage\<close>

text \<open>
  \<^verbatim>\<open>mirascope/core/mistral/_utils/_setup_call.py\<close> and
  \<^verbatim>\<open>mirascope/core/vertex/_utils/_setup_call.py\<close>.

  Both start with the provider-neutral \<^verbatim>\<open>_utils.setup_call\<close> and use
  \<^verbatim>\<open>_utils.json_mode_content\<close>; neither is among the sources at hand. The result
  of the former (prompt template, messages, tool types, call kwargs) is an argument
  \<open>base\<close> of the functions below, the latter is an argument
  \<open>json_mode_content\<close>. A tool type is a class, known by what its
  \<^verbatim>\<open>_name()\<close> returns.
\<close>

datatype base_tool = BaseTool string

fun tool_name :: "base_tool \<Rightarrow> string" where
  "tool_name (BaseTool n) = n"

text \<open>
  A converted Vertex message is, by the annotation \<^verbatim>\<open>list[Content]\<close>, an object of the
  provider's class \<^verbatim>\<open>Content\<close> (a role and a list of parts), which has no subscript
  operation. A dict with the keys \<^verbatim>\<open>role\<close> and \<^verbatim>\<open>parts\<close> is the other value that
  a conversion can hand over at run time. A part is a plain string or one of the
  provider's part objects.
\<close>

datatype vertex_part = PartStr string | PartObj string

datatype vertex_message =
    Content string "vertex_part list"
  | ContentDict string "vertex_part list"

text \<open>
  The call kwargs are a dict from keyword to value. The values are typed by keyword
  (\<^verbatim>\<open>MistralCallKwargs\<close>, \<^verbatim>\<open>VertexCallKwargs\<close>); \<open>Param\<close> is the value of any
  keyword the setup stage does not touch. A generation config is a dict, a dataclass
  (which \<^verbatim>\<open>asdict\<close> turns into a dict) or an object of the provider's class
  \<^verbatim>\<open>GenerationConfig\<close>.
\<close>

datatype kwarg =
    Tools "base_tool list"
  | ResponseFormat string
  | ToolChoice string
  | Model string
  | Messages "string message_param list"
  | GenerationConfigDict "string \<rightharpoonup> string"
  | GenerationConfigDataclass "string \<rightharpoonup> string"
  | GenerationConfig string
  | ToolConfig string "string list"
  | Contents "vertex_message list"
  | Param string

type_synonym call_kwargs = "string \<rightharpoonup> kwarg"

text \<open>
  The client is the caller's or one built from the environment (Mistral) or from the
  model name (Vertex); the create function is the synchronous or the asynchronous one
  of that client, as \<^verbatim>\<open>fn_is_async(fn)\<close> decides.
\<close>

datatype client = Client string | Mistral string | GenerativeModel string

datatype create_fn = get_create_fn client | get_async_create_fn client

text \<open>
  Python's \<^verbatim>\<open>str.strip()\<close>. A character here is a code point below 256; the white
  space among these (\<^verbatim>\<open>str.isspace\<close>) is the ASCII white space, the four separator
  controls, U+0085 and U+00A0.
\<close>

definition isspace :: "char \<Rightarrow> bool" where
  "isspace c =
     (c \<in> set [CHR 0x20, CHR 0x09, CHR 0x0A, CHR 0x0B, CHR 0x0C, CHR 0x0D,
               CHR 0x1C, CHR 0x1D, CHR 0x1E, CHR 0x1F, CHR 0x85, CHR 0xA0])"

definition strip :: "string \<Rightarrow> string" where
  "strip s = rev (dropWhile isspace (rev (dropWhile isspace s)))"

text \<open>
  \<^verbatim>\<open>tool_types[0] if tool_types else None\<close>: a list is false when it is
  \<^verbatim>\<open>None\<close> or empty.
\<close>

fun first_tool_type :: "base_tool list option \<Rightarrow> base_tool option" where
  "first_tool_type (Some (t # _)) = Some t"
| "first_tool_type _ = None"

fun truthy :: "'a list option \<Rightarrow> bool" where
  "truthy (Some (_ # _)) = True"
| "truthy _ = False"

subsection \<open>Mistral\<close>

text \<open>
  \<^verbatim>\<open>messages[-1].content += json_mode_content\<close>: string concatenation; adding a
  string to \<^verbatim>\<open>None\<close> raises TypeError.
\<close>

fun add_content :: "string message_param \<Rightarrow> string \<Rightarrow> error + string message_param" where
  "add_content (BaseMessageParam r c) s = Inr (BaseMessageParam r (c @ s))"
| "add_content (UserMessage c) s = Inr (UserMessage (c @ s))"
| "add_content (SystemMessage c) s = Inr (SystemMessage (c @ s))"
| "add_content (AssistantMessage (Some c)) s = Inr (AssistantMessage (Some (c @ s)))"
| "add_content (AssistantMessage None) s = Inl TypeError"
| "add_content (ToolMessage (Some c)) s = Inr (ToolMessage (Some (c @ s)))"
| "add_content (ToolMessage None) s = Inl TypeError"

text \<open>The \<^verbatim>\<open>if json_mode: ... elif extract: ...\<close> part, on the converted messages.\<close>

definition mistral_modes ::
  "(base_tool option \<Rightarrow> string) \<Rightarrow> string message_param list \<Rightarrow> base_tool list option \<Rightarrow>
     call_kwargs \<Rightarrow> bool \<Rightarrow> bool \<Rightarrow> error + string message_param list \<times> call_kwargs" where
  "mistral_modes json_mode_content messages tool_types' call_kwargs json_mode extract =
     (if json_mode then
        (let call_kwargs = call_kwargs(''response_format'' \<mapsto> ResponseFormat ''json_object'');
             json_mode_content = json_mode_content (first_tool_type tool_types')
         in case final messages of
              Inl e \<Rightarrow> Inl e
            | Inr last_message \<Rightarrow>
                if role last_message = ''user''
                then (case add_content last_message json_mode_content of
                        Inl e \<Rightarrow> Inl e
                      | Inr m \<Rightarrow> Inr (butlast messages @ [m], call_kwargs(''tools'' := None)))
                else Inr (messages @ [UserMessage (strip json_mode_content)],
                          call_kwargs(''tools'' := None)))
      else if extract then
        (if truthy tool_types'
         then Inr (messages, call_kwargs(''tool_choice'' \<mapsto> ToolChoice ''any''))
         else Inl (AssertionError ''At least one tool must be provided for extraction.''))
      else Inr (messages, call_kwargs))"

text \<open>
  \<^verbatim>\<open>setup_call\<close>. \<open>environ\<close> is \<^verbatim>\<open>os.environ\<close>, \<open>fn_is_async\<close> the result of
  \<^verbatim>\<open>fn_is_async(fn)\<close>.
\<close>

definition mistral_setup_call ::
  "(base_tool option \<Rightarrow> string) \<Rightarrow> (string \<rightharpoonup> string) \<Rightarrow>
     string option \<times> content message_param list \<times> base_tool list option \<times> call_kwargs \<Rightarrow>
     string \<Rightarrow> client option \<Rightarrow> bool \<Rightarrow> bool \<Rightarrow> bool \<Rightarrow>
     error + create_fn \<times> string option \<times> string message_param list \<times> base_tool list option \<times>
             call_kwargs" where
  "mistral_setup_call json_mode_content environ base model client' fn_is_async json_mode
       extract =
     (case base of (prompt_template, messages, tool_types', base_call_kwargs) \<Rightarrow>
        (case convert_message_params messages of
           Inl e \<Rightarrow> Inl e
         | Inr messages \<Rightarrow>
             (case mistral_modes json_mode_content messages tool_types' base_call_kwargs
                     json_mode extract of
                Inl e \<Rightarrow> Inl e
              | Inr (messages, call_kwargs) \<Rightarrow>
                  (let call_kwargs =
                         call_kwargs(''model'' \<mapsto> Model model, ''messages'' \<mapsto> Messages messages);
                       client' =
                         (case client' of
                            None \<Rightarrow>
                              Mistral (case environ ''MISTRAL_API_KEY'' of
                                         None \<Rightarrow> '''' | Some k \<Rightarrow> k)
                          | Some c \<Rightarrow> c);
                       create_or_stream =
                         (if fn_is_async then get_async_create_fn client'
                          else get_create_fn client')
                   in Inr (create_or_stream, prompt_template, messages, tool_types',
                           call_kwargs)))))"

subsection \<open>Vertex\<close>

text \<open>
  The conversion of the messages to the provider's format is in another module, which
  is not among the sources at hand: it is the argument \<open>convert\<close>.
\<close>

text \<open>
  Lines 92 to 95: \<^verbatim>\<open>call_kwargs.get("generation_config", {})\<close>, \<^verbatim>\<open>asdict\<close> for a
  dataclass, then the item assignment \<^verbatim>\<open>generation_config["response_mime_type"] =
  "application/json"\<close>, which raises TypeError for a value that is neither.
\<close>

fun set_response_mime_type :: "kwarg option \<Rightarrow> error + kwarg" where
  "set_response_mime_type None =
     Inr (GenerationConfigDict [''response_mime_type'' \<mapsto> ''application/json''])"
| "set_response_mime_type (Some (GenerationConfigDict d)) =
     Inr (GenerationConfigDict (d(''response_mime_type'' \<mapsto> ''application/json'')))"
| "set_response_mime_type (Some (GenerationConfigDataclass d)) =
     Inr (GenerationConfigDict (d(''response_mime_type'' \<mapsto> ''application/json'')))"
| "set_response_mime_type (Some _) = Inl TypeError"

text \<open>
  Line 97, \<^verbatim>\<open>messages[-1]["parts"].append(...)\<close>, on the last message: the subscript
  raises TypeError on a \<^verbatim>\<open>Content\<close> object; on a dict the part is appended.
\<close>

fun append_part :: "vertex_message \<Rightarrow> vertex_part \<Rightarrow> error + vertex_message" where
  "append_part (Content r ps) p = Inl TypeError"
| "append_part (ContentDict r ps) p = Inr (ContentDict r (ps @ [p]))"

text \<open>
  Lines 104 to 109: the provider's constructor \<^verbatim>\<open>ToolConfig.FunctionCallingConfig\<close>
  with a mode and the allowed function names, inside \<^verbatim>\<open>ToolConfig(...)\<close>. The mode
  is a member of the provider's enum \<^verbatim>\<open>Mode\<close>; a string is looked up among the names
  of the members, which are upper case, and any other string raises KeyError.
\<close>

definition FunctionCallingConfig :: "string \<Rightarrow> string list \<Rightarrow> error + kwarg" where
  "FunctionCallingConfig mode allowed_function_names =
     (if mode \<in> set [''MODE_UNSPECIFIED'', ''AUTO'', ''ANY'', ''NONE'']
      then Inr (ToolConfig mode allowed_function_names)
      else Inl (KeyError mode))"

text \<open>The \<^verbatim>\<open>if json_mode: ... elif extract: ...\<close> part, on the converted messages.\<close>

definition vertex_modes ::
  "(base_tool option \<Rightarrow> string) \<Rightarrow> vertex_message list \<Rightarrow> base_tool list option \<Rightarrow>
     call_kwargs \<Rightarrow> bool \<Rightarrow> bool \<Rightarrow> error + vertex_message list \<times> call_kwargs" where
  "vertex_modes json_mode_content messages tool_types' call_kwargs json_mode extract =
     (if json_mode then
        (case set_response_mime_type (call_kwargs ''generation_config'') of
           Inl e \<Rightarrow> Inl e
         | Inr generation_config \<Rightarrow>
             (let call_kwargs = call_kwargs(''generation_config'' \<mapsto> generation_config)
              in case final messages of
                   Inl e \<Rightarrow> Inl e
                 | Inr last_message \<Rightarrow>
                     (case append_part last_message
                             (PartStr (json_mode_content (first_tool_type tool_types'))) of
                        Inl e \<Rightarrow> Inl e
                      | Inr m \<Rightarrow>
                          Inr (butlast messages @ [m], call_kwargs(''tools'' := None)))))
      else if extract then
        (case tool_types' of
           Some (t # ts) \<Rightarrow>
             (let call_kwargs = call_kwargs(''tool_config'' := None)
              in case FunctionCallingConfig ''any'' [tool_name t] of
                   Inl e \<Rightarrow> Inl e
                 | Inr tool_config \<Rightarrow>
                     Inr (messages, call_kwargs(''tool_config'' \<mapsto> tool_config)))
         | _ \<Rightarrow> Inl (AssertionError ''At least one tool must be provided for extraction.''))
      else Inr (messages, call_kwargs))"

definition vertex_setup_call ::
  "(base_tool option \<Rightarrow> string) \<Rightarrow> ('m list \<Rightarrow> error + vertex_message list) \<Rightarrow>
     string option \<times> 'm list \<times> base_tool list option \<times> call_kwargs \<Rightarrow>
     string \<Rightarrow> client option \<Rightarrow> bool \<Rightarrow> bool \<Rightarrow> bool \<Rightarrow>
     error + create_fn \<times> string option \<times> vertex_message list \<times> base_tool list option \<times>
             call_kwargs" where
  "vertex_setup_call json_mode_content convert base model client' fn_is_async json_mode
       extract =
     (case base of (prompt_template, messages, tool_types', base_call_kwargs) \<Rightarrow>
        (case convert messages of
           Inl e \<Rightarrow> Inl e
         | Inr messages \<Rightarrow>
             (case vertex_modes json_mode_content messages tool_types' base_call_kwargs
                     json_mode extract of
                Inl e \<Rightarrow> Inl e
              | Inr (messages, call_kwargs) \<Rightarrow>
                  (let call_kwargs = call_kwargs(''contents'' \<mapsto> Contents messages);
                       client' =
                         (case client' of None \<Rightarrow> GenerativeModel model | Some c \<Rightarrow> c);
                       create =
                         (if fn_is_async then get_async_create_fn client'
                          else get_create_fn client')
                   in Inr (create, prompt_template, messages, tool_types', call_kwargs)))))"

subsection \<open>Reading the result\<close>

text \<open>
  The \<^verbatim>\<open>content\<close> attribute of a converted message, and the third and the fifth
  component of what \<^verbatim>\<open>setup_call\<close> returns (\<open>None\<close> when it raised).
\<close>

fun message_param_content :: "string message_param \<Rightarrow> string option" where
  "message_param_content (BaseMessageParam r c) = Some c"
| "message_param_content (AssistantMessage c) = c"
| "message_param_content (SystemMessage c) = Some c"
| "message_param_content (ToolMessage c) = c"
| "message_param_content (UserMessage c) = Some c"

fun returned_messages :: "error + 'a \<times> 'b \<times> 'c \<times> 'd \<times> 'e \<Rightarrow> 'c option" where
  "returned_messages (Inr (_, _, messages, _, _)) = Some messages"
| "returned_messages (Inl _) = None"

fun returned_call_kwargs :: "error + 'a \<times> 'b \<times> 'c \<times> 'd \<times> 'e \<Rightarrow> 'e option" where
  "returned_call_kwargs (Inr (_, _, _, _, call_kwargs)) = Some call_kwargs"
| "returned_call_kwargs (Inl _) = None"

subsection \<open>Concrete arguments\<close>

text \<open>
  A \<^verbatim>\<open>json_mode_content\<close> (the instruction of the library for a call without a tool
  type, whatever the tool type); two Vertex conversions for messages given as pairs of
  role and text, one to \<^verbatim>\<open>Content\<close> objects, as the annotation has it, and one to
  dicts; base call kwargs that carry a tool list of one and of two tools.
\<close>

fun example_json_mode_content :: "base_tool option \<Rightarrow> string" where
  "example_json_mode_content _ =
     CHR 0x0A # CHR 0x0A # ''Extract a valid JSON object instance from the content.''"

fun example_convert :: "(string \<times> string) list \<Rightarrow> error + vertex_message list" where
  "example_convert [] = Inr []"
| "example_convert ((r, t) # ms) =
     (case example_convert ms of
        Inl e \<Rightarrow> Inl e
      | Inr cs \<Rightarrow> Inr (Content r [PartObj t] # cs))"

fun example_convert_dict :: "(string \<times> string) list \<Rightarrow> error + vertex_message list" where
  "example_convert_dict [] = Inr []"
| "example_convert_dict ((r, t) # ms) =
     (case example_convert_dict ms of
        Inl e \<Rightarrow> Inl e
      | Inr cs \<Rightarrow> Inr (ContentDict r [PartStr t] # cs))"

definition example_call_kwargs :: call_kwargs where
  "example_call_kwargs =
     [''tools'' \<mapsto> Tools [BaseTool ''Book''], ''temperature'' \<mapsto> Param ''0.2'']"


definition example_environ :: "string \<rightharpoonup> string" where
  "example_environ = [''MISTRAL_API_KEY'' \<mapsto> ''secret'']"

section \<open>The stream coordinator\<close>

text \<open>
  The stream classes (\<^verbatim>\<open>mirascope/core/base/stream.py\<close>,
  \<^verbatim>\<open>mirascope/core/mistral/stream.py\<close>) are not among the sources at hand; only
  their test \<^verbatim>\<open>tests/core/mistral/test_stream.py\<close> is. The definitions of this
  section follow sections 3 and 4.6 of the specification.
\<close>

text \<open>
  Modelled from the spec: the chunk that the stream coordinator receives
  (CallResponseChunk: content delta, tool-call fragment or none, optional finish reason,
  optional usage). A fragment belongs to a call index and may carry the provider's
  explicit terminal marker.
\<close>

record fragment =
  call_index :: nat
  arguments_text :: string
  terminal_marker :: bool

record 'u CallResponseChunk =
  content_delta :: string
  tool_call_delta :: "fragment option"
  delta_finish_reason :: "string option"
  delta_usage :: "'u option"

text \<open>
  Modelled from the spec: the state of the stream coordinator (StreamState). The mapping
  from call index to argument buffer is an association list in the order in which the
  indices arrived.
\<close>

record ('t, 'u) StreamState =
  accumulated_content :: string
  in_progress_tool_calls :: "(nat \<times> string) list"
  completed_tool_calls :: "'t list"
  final_usage :: "'u option"
  final_finish_reason :: "string option"

definition stream_start :: "('t, 'u) StreamState" where
  "stream_start =
     \<lparr>accumulated_content = '''', in_progress_tool_calls = [], completed_tool_calls = [],
      final_usage = None, final_finish_reason = None\<rparr>"

text \<open>
  Modelled from the spec: Receiving, "append it to the buffer for that call's index";
  an index seen for the first time gets a new buffer.
\<close>

fun append_fragment :: "(nat \<times> string) list \<Rightarrow> nat \<Rightarrow> string \<Rightarrow> (nat \<times> string) list" where
  "append_fragment [] i s = [(i, s)]"
| "append_fragment ((j, b) # buffers) i s =
     (if j = i then (j, b @ s) # buffers else (j, b) # append_fragment buffers i s)"

text \<open>
  Modelled from the spec: ToolCallReady. The buffers whose index is signalled complete
  are parsed and validated (\<open>validate_and_bind\<close>, section 4.2, an argument here);
  a buffer that validates becomes a completed tool call, one that does not stays in
  progress: malformed text is "not an error until" the stream is exhausted. The result is
  the buffers still in progress and the calls completed, both in buffer order.
\<close>

fun tool_call_ready ::
  "(string \<Rightarrow> error + 't) \<Rightarrow> (nat \<Rightarrow> bool) \<Rightarrow> (nat \<times> string) list \<Rightarrow>
     (nat \<times> string) list \<times> 't list" where
  "tool_call_ready validate_and_bind signalled [] = ([], [])"
| "tool_call_ready validate_and_bind signalled ((j, b) # buffers) =
     (case tool_call_ready validate_and_bind signalled buffers of
        (in_progress, completed) \<Rightarrow>
          if signalled j
          then (case validate_and_bind b of
                  Inr call \<Rightarrow> (in_progress, call # completed)
                | Inl e \<Rightarrow> ((j, b) # in_progress, completed))
          else ((j, b) # in_progress, completed))"

text \<open>
  Modelled from the spec: the step of the state machine for one incoming chunk. The
  content delta is appended to the accumulated content. A fragment first completes the
  buffers of every other index ("next chunk starts a new index"), is then appended to
  the buffer of its own index, and completes that buffer when it carries the explicit
  terminal marker. Usage and finish reason are those of the last chunk carrying them.
\<close>

definition receive ::
  "(string \<Rightarrow> error + 't) \<Rightarrow> ('t, 'u) StreamState \<Rightarrow> 'u CallResponseChunk \<Rightarrow> ('t, 'u) StreamState"
  where
  "receive validate_and_bind state chunk =
     (let state = state\<lparr>accumulated_content := accumulated_content state @ content_delta chunk\<rparr>;
          state =
            (case tool_call_delta chunk of
               None \<Rightarrow> state
             | Some f \<Rightarrow>
                 (case tool_call_ready validate_and_bind (\<lambda>j. j \<noteq> call_index f)
                         (in_progress_tool_calls state) of
                    (buffers, earlier) \<Rightarrow>
                      (case (if terminal_marker f
                             then tool_call_ready validate_and_bind (\<lambda>j. j = call_index f)
                                    (append_fragment buffers (call_index f) (arguments_text f))
                             else (append_fragment buffers (call_index f) (arguments_text f),
                                   [])) of
                         (buffers, this) \<Rightarrow>
                           state\<lparr>in_progress_tool_calls := buffers,
                                 completed_tool_calls :=
                                   completed_tool_calls state @ earlier @ this\<rparr>)))
      in state\<lparr>final_usage :=
                  (case delta_usage chunk of None \<Rightarrow> final_usage state | Some u \<Rightarrow> Some u),
                final_finish_reason :=
                  (case delta_finish_reason chunk of
                     None \<Rightarrow> final_finish_reason state
                   | Some r \<Rightarrow> Some r)\<rparr>)"

text \<open>Modelled from the spec: the chunks of a finite source, received in order.\<close>

fun receive_all ::
  "(string \<Rightarrow> error + 't) \<Rightarrow> ('t, 'u) StreamState \<Rightarrow> 'u CallResponseChunk list \<Rightarrow>
     ('t, 'u) StreamState" where
  "receive_all validate_and_bind state [] = state"
| "receive_all validate_and_bind state (chunk # chunks) =
     receive_all validate_and_bind (receive validate_and_bind state chunk) chunks"

text \<open>
  Modelled from the spec: Terminal. When the source is exhausted every buffer still in
  progress is complete ("or stream ends"); a buffer that does not validate then fails
  with ToolArgumentError. Otherwise the state is frozen and the aggregate assistant
  message is synthesized from the accumulated content and all completed tool calls.
\<close>

record 't assistant_message =
  assistant_role :: string
  assistant_content :: string
  assistant_tool_calls :: "'t list"

definition terminal ::
  "(string \<Rightarrow> error + 't) \<Rightarrow> ('t, 'u) StreamState \<Rightarrow>
     error + ('t, 'u) StreamState \<times> 't assistant_message" where
  "terminal validate_and_bind state =
     (case tool_call_ready validate_and_bind (\<lambda>j. True) (in_progress_tool_calls state) of
        (buffers, last_calls) \<Rightarrow>
          (case buffers of
             (j, b) # _ \<Rightarrow> Inl (ToolArgumentError b)
           | [] \<Rightarrow>
               (let state = state\<lparr>in_progress_tool_calls := [],
                                 completed_tool_calls :=
                                   completed_tool_calls state @ last_calls\<rparr>
                in Inr (state,
                        \<lparr>assistant_role = ''assistant'',
                         assistant_content = accumulated_content state,
                         assistant_tool_calls = completed_tool_calls state\<rparr>))))"

text \<open>Modelled from the spec: consuming a stream of chunks to exhaustion.\<close>

definition consume ::
  "(string \<Rightarrow> error + 't) \<Rightarrow> 'u CallResponseChunk list \<Rightarrow>
     error + ('t, 'u) StreamState \<times> 't assistant_message" where
  "consume validate_and_bind chunks =
     terminal validate_and_bind (receive_all validate_and_bind stream_start chunks)"

text \<open>
  A \<open>validate_and_bind\<close> for the concrete streams below: the arguments are valid when
  they are enclosed in braces, and the bound call is the text itself.
\<close>

definition braces :: "string \<Rightarrow> error + string" where
  "braces s =
     (if s \<noteq> '''' \<and> hd s = CHR ''{'' \<and> last s = CHR ''}'' then Inr s
      else Inl (ToolArgumentError s))"

section \<open>Theorems\<close>

subsection \<open>Common call parameters\<close>

lemma map_of_MISTRAL_PARAM_MAPPING:
  "map_of MISTRAL_PARAM_MAPPING key =
     (if key \<in> {''temperature'', ''max_tokens'', ''top_p'', ''seed'', ''stop''}
      then Some (if key = ''seed'' then ''random_seed'' else key) else None)"
  by (simp add: MISTRAL_PARAM_MAPPING_def)

lemma map_of_MISTRAL_PARAM_MAPPING_inj:
  "map_of MISTRAL_PARAM_MAPPING k1 = Some k' \<Longrightarrow> map_of MISTRAL_PARAM_MAPPING k2 = Some k' \<Longrightarrow>
     k1 = k2"
  by (auto simp: map_of_MISTRAL_PARAM_MAPPING split: if_splits)

lemma convert_common_params_keys:
  "k' \<in> fst ` set (convert_common_params ps) \<Longrightarrow>
     \<exists>k\<in>fst ` set ps. map_of MISTRAL_PARAM_MAPPING k = Some k'"
proof (induction ps)
  case Nil
  then show ?case by simp
next
  case (Cons item items)
  obtain key val where item: "item = (key, val)" by (cases item)
  from Cons show ?case
    unfolding item
    by (cases "map_of MISTRAL_PARAM_MAPPING key"; cases val) auto
qed

text \<open>
  The comprehension never writes a key twice: a mapping (distinct keys) is converted to
  a mapping, so the association list stands for the dict it builds.
\<close>

lemma convert_common_params_distinct:
  "distinct (map fst common_params) \<Longrightarrow> distinct (map fst (convert_common_params common_params))"
proof (induction common_params)
  case Nil
  then show ?case by simp
next
  case (Cons item items)
  obtain key val where item: "item = (key, val)" by (cases item)
  from Cons.prems have d: "distinct (map fst items)" and k: "key \<notin> fst ` set items"
    by (simp_all add: item)
  have ih: "distinct (map fst (convert_common_params items))"
    by (rule Cons.IH[OF d])
  show ?case
  proof (cases "map_of MISTRAL_PARAM_MAPPING key")
    case None
    with ih show ?thesis by (simp add: item)
  next
    case (Some key')
    show ?thesis
    proof (cases val)
      case None
      with ih Some show ?thesis by (simp add: item)
    next
      case (Some v)
      have "key' \<notin> fst ` set (convert_common_params items)"
      proof
        assume "key' \<in> fst ` set (convert_common_params items)"
        then obtain k where "k \<in> fst ` set items" "map_of MISTRAL_PARAM_MAPPING k = Some key'"
          using convert_common_params_keys by blast
        with \<open>map_of MISTRAL_PARAM_MAPPING key = Some key'\<close> k show False
          using map_of_MISTRAL_PARAM_MAPPING_inj by blast
      qed
      with ih Some \<open>map_of MISTRAL_PARAM_MAPPING key = Some key'\<close> show ?thesis
        by (simp add: item)
    qed
  qed
qed

text \<open>
  C10. The Mistral conversion of a common-call-params mapping returns exactly the
  entries whose key is one of temperature, max_tokens, top_p, seed, stop and whose value
  is not None, in their order, with the key seed renamed to random_seed and every other
  key kept; entries with another key or with the value None are dropped.
\<close>

theorem convert_common_params_exact:
  "convert_common_params common_params =
     [(if key = ''seed'' then ''random_seed'' else key, v).
        (key, Some v) \<leftarrow> common_params,
        key \<in> {''temperature'', ''max_tokens'', ''top_p'', ''seed'', ''stop''}]"
proof (induction common_params)
  case Nil
  show ?case by simp
next
  case (Cons item items)
  obtain key val where item: "item = (key, val)" by (cases item)
  show ?case
    unfolding item
    by (cases val) (simp_all add: map_of_MISTRAL_PARAM_MAPPING Cons.IH del: insert_iff)
qed

subsection \<open>Message parameters\<close>

lemma not_one_text_part_iff: "not_one_text_part ps \<longleftrightarrow> (\<forall>t. ps \<noteq> [TextPart t])"
proof (cases ps)
  case Nil
  then show ?thesis by (simp add: not_one_text_part_def)
next
  case (Cons p qs)
  then show ?thesis by (cases p; cases qs) (auto simp: not_one_text_part_def)
qed

lemma unsupported_iff:
  "unsupported m \<longleftrightarrow> (\<exists>r ps. m = BaseMessageParam r (Parts ps) \<and> (\<forall>t. ps \<noteq> [TextPart t]))"
  by (cases m rule: unsupported.cases) (simp_all add: not_one_text_part_iff)

lemma convert_message_param_unsupported:
  "unsupported m \<Longrightarrow>
     convert_message_param m = Inl (ValueError ''Mistral currently only supports text parts.'')"
  by (cases m rule: unsupported.cases) simp_all

lemma convert_message_param_supported:
  "\<not> unsupported m \<Longrightarrow>
     convert_message_param m =
       Inr (case m of
              BaseMessageParam r (Str s) \<Rightarrow> BaseMessageParam r s
            | BaseMessageParam r (Parts ps) \<Rightarrow> BaseMessageParam r (concat [t. TextPart t \<leftarrow> ps])
            | AssistantMessage c \<Rightarrow> AssistantMessage c
            | SystemMessage c \<Rightarrow> SystemMessage c
            | ToolMessage c \<Rightarrow> ToolMessage c
            | UserMessage c \<Rightarrow> UserMessage c)"
  by (cases m rule: unsupported.cases) (auto simp: not_one_text_part_iff)

lemma convert_message_params_raises:
  "\<exists>m\<in>set ms. unsupported m \<Longrightarrow>
     convert_message_params ms = Inl (ValueError ''Mistral currently only supports text parts.'')"
proof (induction ms)
  case Nil
  then show ?case by simp
next
  case (Cons m ms)
  show ?case
  proof (cases "unsupported m")
    case True
    then show ?thesis by (simp add: convert_message_param_unsupported)
  next
    case False
    with Cons.prems have "\<exists>m\<in>set ms. unsupported m" by simp
    with Cons.IH False show ?thesis by (simp add: convert_message_param_supported)
  qed
qed

lemma convert_message_params_converts:
  "\<forall>m\<in>set ms. \<not> unsupported m \<Longrightarrow>
     convert_message_params ms =
       Inr (map (\<lambda>m. case m of
              BaseMessageParam r (Str s) \<Rightarrow> BaseMessageParam r s
            | BaseMessageParam r (Parts ps) \<Rightarrow> BaseMessageParam r (concat [t. TextPart t \<leftarrow> ps])
            | AssistantMessage c \<Rightarrow> AssistantMessage c
            | SystemMessage c \<Rightarrow> SystemMessage c
            | ToolMessage c \<Rightarrow> ToolMessage c
            | UserMessage c \<Rightarrow> UserMessage c) ms)"
  by (induction ms) (simp_all add: convert_message_param_supported)

text \<open>
  C6. If a list of messages holds a neutral message whose content is a part list that is
  not exactly one text part, converting the list to the text-only Mistral format raises
  the ValueError "Mistral currently only supports text parts."; no part is dropped
  silently. If every neutral message has a plain string or exactly one text part as its
  content, the conversion returns without error: a neutral message keeps its role and
  gets the string, or the text of its one part, as content, and the provider's own
  messages are passed through unchanged.
\<close>

theorem convert_message_params_text_only:
  "((\<exists>r ps. BaseMessageParam r (Parts ps) \<in> set ms \<and> (\<forall>t. ps \<noteq> [TextPart t])) \<longrightarrow>
      convert_message_params ms =
        Inl (ValueError ''Mistral currently only supports text parts.'')) \<and>
   ((\<forall>r ps. BaseMessageParam r (Parts ps) \<in> set ms \<longrightarrow> (\<exists>t. ps = [TextPart t])) \<longrightarrow>
      convert_message_params ms =
        Inr (map (\<lambda>m. case m of
               BaseMessageParam r (Str s) \<Rightarrow> BaseMessageParam r s
             | BaseMessageParam r (Parts ps) \<Rightarrow>
                 BaseMessageParam r (concat [t. TextPart t \<leftarrow> ps])
             | AssistantMessage c \<Rightarrow> AssistantMessage c
             | SystemMessage c \<Rightarrow> SystemMessage c
             | ToolMessage c \<Rightarrow> ToolMessage c
             | UserMessage c \<Rightarrow> UserMessage c) ms))"
proof (intro conjI impI)
  assume "\<exists>r ps. BaseMessageParam r (Parts ps) \<in> set ms \<and> (\<forall>t. ps \<noteq> [TextPart t])"
  then have "\<exists>m\<in>set ms. unsupported m"
    unfolding unsupported_iff by blast
  then show "convert_message_params ms =
      Inl (ValueError ''Mistral currently only supports text parts.'')"
    by (rule convert_message_params_raises)
next
  assume "\<forall>r ps. BaseMessageParam r (Parts ps) \<in> set ms \<longrightarrow> (\<exists>t. ps = [TextPart t])"
  then have "\<forall>m\<in>set ms. \<not> unsupported m"
    unfolding unsupported_iff by blast
  then show "convert_message_params ms =
        Inr (map (\<lambda>m. case m of
               BaseMessageParam r (Str s) \<Rightarrow> BaseMessageParam r s
             | BaseMessageParam r (Parts ps) \<Rightarrow>
                 BaseMessageParam r (concat [t. TextPart t \<leftarrow> ps])
             | AssistantMessage c \<Rightarrow> AssistantMessage c
             | SystemMessage c \<Rightarrow> SystemMessage c
             | ToolMessage c \<Rightarrow> ToolMessage c
             | UserMessage c \<Rightarrow> UserMessage c) ms)"
    by (rule convert_message_params_converts)
qed

theorem convert_message_params_text_only_witness:
  "convert_message_params
     [BaseMessageParam ''user'' (Str ''hi''),
      BaseMessageParam ''user'' (Parts [TextPart ''look'', ImagePart ''image/png'' ''AAAA''])] =
     Inl (ValueError ''Mistral currently only supports text parts.'') \<and>
   convert_message_params
     [SystemMessage ''be brief'',
      BaseMessageParam ''user'' (Str ''hi''),
      BaseMessageParam ''user'' (Parts [TextPart ''there''])] =
     Inr [SystemMessage ''be brief'',
          BaseMessageParam ''user'' ''hi'',
          BaseMessageParam ''user'' ''there'']"
  using
    convert_message_params_text_only
      [of "[BaseMessageParam ''user'' (Str ''hi''),
            BaseMessageParam ''user'' (Parts [TextPart ''look'', ImagePart ''image/png'' ''AAAA''])]"]
    convert_message_params_text_only
      [of "[SystemMessage ''be brief'',
            BaseMessageParam ''user'' (Str ''hi''),
            BaseMessageParam ''user'' (Parts [TextPart ''there''])]"]
  by simp

subsection \<open>The chat completion wrapper\<close>

lemma match_tool_type_find:
  "match_tool_type tts tc =
     (case find (\<lambda>tt. name (function_of tc) = class_name tt) tts of
        None \<Rightarrow> Inr None
      | Some tt \<Rightarrow> (case from_tool_call tt tc of Inl e \<Rightarrow> Inl e | Inr t \<Rightarrow> Inr (Some t)))"
  by (induction tts) simp_all

lemma find_None_iff_name:
  "find (\<lambda>tt. name (function_of tc) = class_name tt) tts = None \<longleftrightarrow>
     name (function_of tc) \<notin> class_name ` set tts"
  by (auto simp: find_None_iff)

lemma match_tool_type_unknown:
  "name (function_of tc) \<notin> class_name ` set tts \<Longrightarrow> match_tool_type tts tc = Inr None"
  by (simp add: match_tool_type_find find_None_iff_name[symmetric])

lemma extract_tools_unknown:
  "name (function_of tc) \<notin> class_name ` set tts \<Longrightarrow>
     extract_tools tts (pre @ tc # post) acc = extract_tools tts (pre @ post) acc"
  by (induction pre arbitrary: acc)
     (simp_all add: match_tool_type_unknown split: sum.splits option.splits)

lemma extract_tools_all_unknown:
  "\<forall>tc\<in>set tcs. name (function_of tc) \<notin> class_name ` set tts \<Longrightarrow>
     extract_tools tts tcs acc = Inr acc"
  by (induction tcs arbitrary: acc) (simp_all add: match_tool_type_unknown)


lemma extract_tools_error_origin:
  "extract_tools tts tcs acc = Inl e \<Longrightarrow>
     \<exists>tc\<in>set tcs. \<exists>tt. find (\<lambda>tt. name (function_of tc) = class_name tt) tts = Some tt \<and>
        from_tool_call tt tc = Inl e"
proof (induction tcs arbitrary: acc)
  case Nil
  then show ?case by simp
next
  case (Cons tc tcs)
  then show ?case
    by (auto simp: match_tool_type_find split: sum.splits option.splits)
qed

lemma tools_nonempty:
  "tool_types self = Some tts \<Longrightarrow> tts \<noteq> [] \<Longrightarrow> tool_calls self = Inr (Some tcs) \<Longrightarrow> tcs \<noteq> [] \<Longrightarrow>
     tools self = (case extract_tools tts tcs [] of Inl e \<Rightarrow> Inl e | Inr ts \<Rightarrow> Inr (Some ts))"
  by (cases tts; cases tcs) (simp_all add: tools_def)



text \<open>
  C3 as stated fails on the scenario of the specification: the response names the tool
  lookup_weather, the active tool list holds recommend_book only. Reading \<open>tools\<close> returns the empty list
  and reading \<open>tool\<close> returns None; nothing is raised.
\<close>

theorem tools_unknown_tool_counterexample:
  "tools
     \<lparr>completion = \<lparr>completion_choices =
        [\<lparr>message_of = \<lparr>message_content = None, message_tool_calls = Some
           [\<lparr>call_id = ''c1'', function_of = \<lparr>name = ''lookup_weather'', arguments = ''{}''\<rparr>\<rparr>]\<rparr>\<rparr>]\<rparr>,
      tool_types = Some
        [\<lparr>class_name = ''recommend_book'', from_tool_call = accept_tool_call ''recommend_book''\<rparr>]\<rparr> =
     Inr (Some []) \<and>
   tool
     \<lparr>completion = \<lparr>completion_choices =
        [\<lparr>message_of = \<lparr>message_content = None, message_tool_calls = Some
           [\<lparr>call_id = ''c1'', function_of = \<lparr>name = ''lookup_weather'', arguments = ''{}''\<rparr>\<rparr>]\<rparr>\<rparr>]\<rparr>,
      tool_types = Some
        [\<lparr>class_name = ''recommend_book'', from_tool_call = accept_tool_call ''recommend_book''\<rparr>]\<rparr> =
     Inr None"
  by (simp add: tools_def tool_def tool_calls_def message_def)

text \<open>
  C3, as amended. A tool call whose function name is absent from the active tool list
  raises nothing when the tools or the tool accessor is read. With a non-empty tool list
  the call is left out of what tools returns, which is what the other calls resolve to;
  when every call names an absent function, tools returns the empty list and tool
  returns None. With an empty or missing tool list both accessors return None, whatever
  the calls name. An error of tools is always the IndexError of a completion without
  choices or the error of building a call whose name is in the tool list. Constructing
  the wrapper stores its two fields and raises nothing.
\<close>

theorem tools_omits_unknown_tool:
  "(tool_types self = Some tts \<and> tts \<noteq> [] \<and>
      tool_calls self = Inr (Some (pre @ tc # post)) \<and>
      name (function_of tc) \<notin> class_name ` set tts \<longrightarrow>
      tools self =
        (case extract_tools tts (pre @ post) [] of
           Inl e \<Rightarrow> Inl e
         | Inr ts \<Rightarrow> Inr (Some ts))) \<and>
   (tool_types self = Some tts \<and> tts \<noteq> [] \<and>
      tool_calls self = Inr (Some tcs) \<and> tcs \<noteq> [] \<and>
      (\<forall>tc\<in>set tcs. name (function_of tc) \<notin> class_name ` set tts) \<longrightarrow>
      tools self = Inr (Some []) \<and> tool self = Inr None) \<and>
   (tool_types self = None \<or> tool_types self = Some [] \<longrightarrow>
      tools self = Inr None \<and> tool self = Inr None) \<and>
   (\<forall>e. tools self = Inl e \<longrightarrow>
      completion_choices (completion self) = [] \<and> e = IndexError \<or>
      (\<exists>tts tcs. tool_types self = Some tts \<and> tool_calls self = Inr (Some tcs) \<and>
         (\<exists>tc\<in>set tcs. \<exists>tt.
            find (\<lambda>tt. name (function_of tc) = class_name tt) tts = Some tt \<and>
            from_tool_call tt tc = Inl e))) \<and>
   new_OpenAIChatCompletion completion' tool_types' =
     Inr \<lparr>completion = completion', tool_types = tool_types'\<rparr>"
proof (intro conjI impI allI)
  assume a: "tool_types self = Some tts \<and> tts \<noteq> [] \<and>
      tool_calls self = Inr (Some (pre @ tc # post)) \<and>
      name (function_of tc) \<notin> class_name ` set tts"
  then have "tools self =
      (case extract_tools tts (pre @ tc # post) [] of Inl e \<Rightarrow> Inl e | Inr ts \<Rightarrow> Inr (Some ts))"
    using tools_nonempty[of self tts "pre @ tc # post"] by simp
  with a show "tools self =
      (case extract_tools tts (pre @ post) [] of Inl e \<Rightarrow> Inl e | Inr ts \<Rightarrow> Inr (Some ts))"
    by (simp add: extract_tools_unknown)
next
  assume a: "tool_types self = Some tts \<and> tts \<noteq> [] \<and>
      tool_calls self = Inr (Some tcs) \<and> tcs \<noteq> [] \<and>
      (\<forall>tc\<in>set tcs. name (function_of tc) \<notin> class_name ` set tts)"
  then have "extract_tools tts tcs [] = Inr []"
    by (simp add: extract_tools_all_unknown)
  with a show "tools self = Inr (Some [])"
    using tools_nonempty[of self tts tcs] by simp
  then show "tool self = Inr None"
    by (simp add: tool_def)
next
  assume "tool_types self = None \<or> tool_types self = Some []"
  then show "tools self = Inr None"
    by (auto simp: tools_def)
  then show "tool self = Inr None"
    by (simp add: tool_def)
next
  fix e
  assume e: "tools self = Inl e"
  show "completion_choices (completion self) = [] \<and> e = IndexError \<or>
      (\<exists>tts tcs. tool_types self = Some tts \<and> tool_calls self = Inr (Some tcs) \<and>
         (\<exists>tc\<in>set tcs. \<exists>tt.
            find (\<lambda>tt. name (function_of tc) = class_name tt) tts = Some tt \<and>
            from_tool_call tt tc = Inl e))"
  proof (cases "tool_calls self")
    case (Inl e')
    with e have "e' = e"
      by (simp add: tools_def split: option.splits list.splits)
    with Inl have "completion_choices (completion self) = [] \<and> e = IndexError"
      by (cases "completion_choices (completion self)")
         (simp_all add: tool_calls_def message_def)
    then show ?thesis by blast
  next
    case (Inr calls)
    with e obtain tts tcs where t: "tool_types self = Some tts" "calls = Some tcs"
        and x: "extract_tools tts tcs [] = Inl e"
      by (auto simp: tools_def split: option.splits list.splits sum.splits)
    from extract_tools_error_origin[OF x] t Inr show ?thesis by blast
  qed
next
  show "new_OpenAIChatCompletion completion' tool_types' =
      Inr \<lparr>completion = completion', tool_types = tool_types'\<rparr>"
    by (simp add: new_OpenAIChatCompletion_def)
qed

theorem tools_omits_unknown_tool_witness:
  "tools
     \<lparr>completion = \<lparr>completion_choices =
        [\<lparr>message_of = \<lparr>message_content = None, message_tool_calls = Some
           [\<lparr>call_id = ''c1'', function_of = \<lparr>name = ''recommend_book'', arguments = ''{genre: sf}''\<rparr>\<rparr>,
            \<lparr>call_id = ''c2'', function_of = \<lparr>name = ''lookup_weather'', arguments = ''{}''\<rparr>\<rparr>]\<rparr>\<rparr>]\<rparr>,
      tool_types = Some
        [\<lparr>class_name = ''recommend_book'', from_tool_call = accept_tool_call ''recommend_book''\<rparr>]\<rparr> =
     Inr (Some [(''recommend_book'', ''{genre: sf}'')]) \<and>
   tool
     \<lparr>completion = \<lparr>completion_choices =
        [\<lparr>message_of = \<lparr>message_content = None, message_tool_calls = Some
           [\<lparr>call_id = ''c2'', function_of = \<lparr>name = ''lookup_weather'', arguments = ''{}''\<rparr>\<rparr>]\<rparr>\<rparr>]\<rparr>,
      tool_types = Some
        [\<lparr>class_name = ''recommend_book'', from_tool_call = reject_tool_call ''recommend_book''\<rparr>]\<rparr> =
     Inr None \<and>
   tools
     \<lparr>completion = \<lparr>completion_choices =
        [\<lparr>message_of = \<lparr>message_content = None, message_tool_calls = Some
           [\<lparr>call_id = ''c2'', function_of = \<lparr>name = ''lookup_weather'', arguments = ''{}''\<rparr>\<rparr>]\<rparr>\<rparr>]\<rparr>,
      tool_types = None :: (string \<times> string) tool_type list option\<rparr> =
     Inr None"
  using
    tools_omits_unknown_tool
      [where self = "\<lparr>completion = \<lparr>completion_choices =
        [\<lparr>message_of = \<lparr>message_content = None, message_tool_calls = Some
           [\<lparr>call_id = ''c1'', function_of = \<lparr>name = ''recommend_book'', arguments = ''{genre: sf}''\<rparr>\<rparr>,
            \<lparr>call_id = ''c2'', function_of = \<lparr>name = ''lookup_weather'', arguments = ''{}''\<rparr>\<rparr>]\<rparr>\<rparr>]\<rparr>,
      tool_types = Some
        [\<lparr>class_name = ''recommend_book'', from_tool_call = accept_tool_call ''recommend_book''\<rparr>]\<rparr>"
        and tts = "[\<lparr>class_name = ''recommend_book'', from_tool_call = accept_tool_call ''recommend_book''\<rparr>]"
        and pre = "[\<lparr>call_id = ''c1'', function_of = \<lparr>name = ''recommend_book'', arguments = ''{genre: sf}''\<rparr>\<rparr>]"
        and tc = "\<lparr>call_id = ''c2'', function_of = \<lparr>name = ''lookup_weather'', arguments = ''{}''\<rparr>\<rparr>"
        and post = "[]" and tcs = "[]"
        and completion' = "\<lparr>completion_choices = []\<rparr>" and tool_types' = None]
    tools_omits_unknown_tool
      [where self = "\<lparr>completion = \<lparr>completion_choices =
        [\<lparr>message_of = \<lparr>message_content = None, message_tool_calls = Some
           [\<lparr>call_id = ''c2'', function_of = \<lparr>name = ''lookup_weather'', arguments = ''{}''\<rparr>\<rparr>]\<rparr>\<rparr>]\<rparr>,
      tool_types = Some
        [\<lparr>class_name = ''recommend_book'', from_tool_call = reject_tool_call ''recommend_book''\<rparr>]\<rparr>"
        and tts = "[\<lparr>class_name = ''recommend_book'', from_tool_call = reject_tool_call ''recommend_book''\<rparr>]"
        and pre = "[]"
        and tc = "\<lparr>call_id = ''c2'', function_of = \<lparr>name = ''lookup_weather'', arguments = ''{}''\<rparr>\<rparr>"
        and post = "[]"
        and tcs = "[\<lparr>call_id = ''c2'', function_of = \<lparr>name = ''lookup_weather'', arguments = ''{}''\<rparr>\<rparr>]"
        and completion' = "\<lparr>completion_choices = []\<rparr>" and tool_types' = None]
    tools_omits_unknown_tool
      [where self = "\<lparr>completion = \<lparr>completion_choices =
        [\<lparr>message_of = \<lparr>message_content = None, message_tool_calls = Some
           [\<lparr>call_id = ''c2'', function_of = \<lparr>name = ''lookup_weather'', arguments = ''{}''\<rparr>\<rparr>]\<rparr>\<rparr>]\<rparr>,
      tool_types = None :: (string \<times> string) tool_type list option\<rparr>"
        and tts = "[]" and pre = "[]"
        and tc = "\<lparr>call_id = ''c2'', function_of = \<lparr>name = ''lookup_weather'', arguments = ''{}''\<rparr>\<rparr>"
        and post = "[]" and tcs = "[]"
        and completion' = "\<lparr>completion_choices = []\<rparr>" and tool_types' = None]
  by (simp add: tools_def tool_def tool_calls_def message_def)

subsection \<open>The chunk wrappers\<close>

lemma openai_content_total: "\<exists>s. openai_content self = Inr s"
  by (auto simp: openai_content_def split: option.splits list.splits)

lemma openai_content_value:
  "openai_content self =
     Inr (case chunk_choices self of
            None \<Rightarrow> ''''
          | Some [] \<Rightarrow> ''''
          | Some (c # _) \<Rightarrow>
              (case delta c of
                 None \<Rightarrow> ''''
               | Some d \<Rightarrow> (case delta_content d of None \<Rightarrow> '''' | Some s \<Rightarrow> s)))"
  by (auto simp: openai_content_def split: option.splits list.splits)

lemma openai_finish_reasons_raises_iff:
  "openai_finish_reasons self = Inl e \<longleftrightarrow> chunk_choices self = None \<and> e = TypeError"
  by (auto simp: openai_finish_reasons_def split: option.splits)

lemma openai_finish_reasons_none_carried:
  "openai_finish_reasons
     (self\<lparr>chunk_choices := Some (map (\<lambda>c. c\<lparr>finish_reason := None\<rparr>) cs)\<rparr>) = Inr []"
  by (induction cs) (simp_all add: openai_finish_reasons_def)

lemma openai_usage_omitted:
  "openai_usage (self\<lparr>chunk_usage := None\<rparr>) = None"
  "openai_usage (self\<lparr>chunk_usage := Some None\<rparr>) = None"
  "openai_input_tokens (self\<lparr>chunk_usage := None\<rparr>) = None"
  "openai_input_tokens (self\<lparr>chunk_usage := Some None\<rparr>) = None"
  "openai_output_tokens (self\<lparr>chunk_usage := None\<rparr>) = None"
  "openai_output_tokens (self\<lparr>chunk_usage := Some None\<rparr>) = None"
  by (simp_all add: openai_usage_def openai_input_tokens_def openai_output_tokens_def)

lemma openai_model_id_omitted:
  "openai_model (self\<lparr>chunk_model := None\<rparr>) = None"
  "openai_id (self\<lparr>chunk_id := None\<rparr>) = None"
  by (simp_all add: openai_model_def openai_id_def)

lemma cohere_omitted:
  "cohere_content (StreamedChatResponse_StreamStart gid) = ''''"
  "cohere_content (StreamedChatResponse_StreamEnd reason response) = ''''"
  "cohere_content (StreamedChatResponse_Other event) = ''''"
  "cohere_finish_reasons (StreamedChatResponse_StreamStart gid) = None"
  "cohere_finish_reasons (StreamedChatResponse_TextGeneration txt) = None"
  "cohere_finish_reasons (StreamedChatResponse_Other event) = None"
  "cohere_model chunk = None"
  "cohere_id (StreamedChatResponse_TextGeneration txt) = None"
  "cohere_id (StreamedChatResponse_Other event) = None"
  "cohere_id (StreamedChatResponse_StreamEnd reason (response\<lparr>generation_id := None\<rparr>)) = None"
  "cohere_usage (StreamedChatResponse_StreamStart gid) = None"
  "cohere_usage (StreamedChatResponse_TextGeneration txt) = None"
  "cohere_usage (StreamedChatResponse_Other event) = None"
  "cohere_usage (StreamedChatResponse_StreamEnd reason (response\<lparr>meta := None\<rparr>)) = None"
  "cohere_usage (StreamedChatResponse_StreamEnd reason
     (response\<lparr>meta := Some (m\<lparr>billed_units := None\<rparr>)\<rparr>)) = None"
  by simp_all

text \<open>
  C8. The accessors are not all total. For a chunk whose \<^verbatim>\<open>choices\<close> is
  \<^verbatim>\<open>None\<close>, which the unvalidated chunk type admits, OpenAI's finish_reasons raises
  TypeError, where the claim has it return the empty list; content, which tests
  \<^verbatim>\<open>self.chunk.choices\<close> before it reads it, returns the empty string for the same
  chunk, and model, id and usage return what the chunk holds.
\<close>

theorem openai_finish_reasons_raises:
  "openai_finish_reasons
     \<lparr>chunk_id = Some ''chatcmpl-1'', chunk_model = Some ''gpt-4o-mini'',
      chunk_choices = None, chunk_usage = Some None\<rparr> = Inl TypeError \<and>
   openai_content
     \<lparr>chunk_id = Some ''chatcmpl-1'', chunk_model = Some ''gpt-4o-mini'',
      chunk_choices = None, chunk_usage = Some None\<rparr> = Inr '''' \<and>
   openai_model
     \<lparr>chunk_id = Some ''chatcmpl-1'', chunk_model = Some ''gpt-4o-mini'',
      chunk_choices = None, chunk_usage = Some None\<rparr> = Some ''gpt-4o-mini'' \<and>
   openai_usage
     \<lparr>chunk_id = Some ''chatcmpl-1'', chunk_model = Some ''gpt-4o-mini'',
      chunk_choices = None, chunk_usage = Some None\<rparr> = None"
  by (simp add: openai_finish_reasons_def openai_content_def openai_model_def openai_usage_def)

subsection \<open>The call factory\<close>

text \<open>
  C1. Called with stream=True and an output parser that is not None, base_call raises
  its ValueError at once, whatever the other arguments are: the test is its first
  statement, no decorator is built and so no setup and no network call can follow. For
  every other combination of stream and output_parser it raises nothing and returns a
  decorator: the one of the four factories that stream and response_model select.
\<close>

theorem base_call_stream_output_parser:
  "(stream \<and> output_parser \<noteq> None \<longrightarrow>
      base_call default_call_params model stream tools' response_model output_parser
          json_mode client call_params =
        Inl (ValueError
               (''Cannot use '' @ CHR 0x60 # ''output_parser'' @ CHR 0x60 # '' with '' @
                CHR 0x60 # ''stream=True'' @ CHR 0x60 # ''.''))) \<and>
   (\<not> (stream \<and> output_parser \<noteq> None) \<longrightarrow>
      (\<exists>d. base_call default_call_params model stream tools' response_model output_parser
              json_mode client call_params = Inr d \<and>
           (case d of
              structured_stream_factory _ _ _ _ _ \<Rightarrow> stream \<and> response_model \<noteq> None
            | extract_factory _ _ _ _ _ _ \<Rightarrow> \<not> stream \<and> response_model \<noteq> None
            | stream_factory _ _ _ _ _ \<Rightarrow> stream \<and> response_model = None
            | create_factory _ _ _ _ _ _ \<Rightarrow> \<not> stream \<and> response_model = None)))"
  by (cases response_model; cases stream) (simp_all add: base_call_def)

theorem base_call_stream_output_parser_witness:
  "base_call [] ''mistral-large-latest'' True None (Some ''Book'') (Some ''parse_book'') True
       None None =
     Inl (ValueError
            (''Cannot use '' @ CHR 0x60 # ''output_parser'' @ CHR 0x60 # '' with '' @
             CHR 0x60 # ''stream=True'' @ CHR 0x60 # ''.'')) \<and>
   (\<exists>d. base_call [] ''mistral-large-latest'' False None None (Some ''parse_book'') False
            None None = Inr d) \<and>
   (\<exists>d. base_call [] ''mistral-large-latest'' True None None None False None None = Inr d)"
  using
    base_call_stream_output_parser
      [of True "Some ''parse_book''" "[]" "''mistral-large-latest''" None "Some ''Book''" True
          None None]
    base_call_stream_output_parser
      [of False "Some ''parse_book''" "[]" "''mistral-large-latest''" None None False None None]
    base_call_stream_output_parser
      [of True None "[]" "''mistral-large-latest''" None None False None None]
  by auto

subsection \<open>The setup stage\<close>

lemma final_last: "xs \<noteq> [] \<Longrightarrow> final xs = Inr (last xs)"
  by (induction xs rule: final.induct) simp_all

lemma final_error: "final xs = Inl e \<Longrightarrow> xs = [] \<and> e = IndexError"
  by (induction xs rule: final.induct) simp_all

lemma add_content_user:
  "role m = ''user'' \<Longrightarrow>
     \<exists>m'. add_content m s = Inr m' \<and> role m' = ''user'' \<and>
          message_param_content m' = map_option (\<lambda>c. c @ s) (message_param_content m)"
  by (cases m) simp_all

lemma mistral_modes_json_mode:
  "mistral_modes jmc ms tts kw True extract' =
     (if ms = [] then Inl IndexError
      else if role (last ms) = ''user''
      then (case add_content (last ms) (jmc (first_tool_type tts)) of
              Inl e \<Rightarrow> Inl e
            | Inr m \<Rightarrow>
                Inr (butlast ms @ [m],
                     kw(''response_format'' \<mapsto> ResponseFormat ''json_object'',
                        ''tools'' := None)))
      else Inr (ms @ [UserMessage (strip (jmc (first_tool_type tts)))],
                kw(''response_format'' \<mapsto> ResponseFormat ''json_object'',
                   ''tools'' := None)))"
proof (cases "ms = []")
  case True
  then show ?thesis by (simp add: mistral_modes_def)
next
  case False
  then have "final ms = Inr (last ms)" by (rule final_last)
  with False show ?thesis by (simp add: mistral_modes_def Let_def)
qed

lemma mistral_modes_json_mode_tools:
  "mistral_modes jmc ms tts kw True extract' = Inr (ms', kw') \<Longrightarrow> kw' ''tools'' = None"
  by (auto simp: mistral_modes_json_mode split: if_splits sum.splits)

lemma mistral_modes_json_mode_returns:
  assumes "ms \<noteq> []"
  shows "\<exists>r. mistral_modes jmc ms tts kw True extract' = Inr r"
proof (cases "role (last ms) = ''user''")
  case True
  from add_content_user[OF True, of "jmc (first_tool_type tts)"] obtain m' where
    "add_content (last ms) (jmc (first_tool_type tts)) = Inr m'" by blast
  with True assms show ?thesis
    by (simp add: mistral_modes_json_mode)
next
  case False
  with assms show ?thesis
    by (simp add: mistral_modes_json_mode)
qed

lemma vertex_modes_json_mode:
  "vertex_modes jmc ms tts kw True extract' =
     (case set_response_mime_type (kw ''generation_config'') of
        Inl e \<Rightarrow> Inl e
      | Inr generation_config \<Rightarrow>
          (if ms = [] then Inl IndexError
           else (case append_part (last ms) (PartStr (jmc (first_tool_type tts))) of
                   Inl e \<Rightarrow> Inl e
                 | Inr m \<Rightarrow>
                     Inr (butlast ms @ [m],
                          kw(''generation_config'' \<mapsto> generation_config,
                             ''tools'' := None)))))"
proof (cases "ms = []")
  case True
  then show ?thesis by (simp add: vertex_modes_def split: sum.splits)
next
  case False
  then have "final ms = Inr (last ms)" by (rule final_last)
  with False show ?thesis by (simp add: vertex_modes_def Let_def split: sum.splits)
qed

lemma vertex_modes_json_mode_tools:
  "vertex_modes jmc ms tts kw True extract' = Inr (ms', kw') \<Longrightarrow> kw' ''tools'' = None"
  by (auto simp: vertex_modes_json_mode split: if_splits sum.splits)

lemma mistral_setup_call_json_mode_returns:
  "(case mistral_setup_call json_mode_content environ
           (prompt_template, messages, tool_types', base_call_kwargs)
           model client' fn_is_async True extract' of
      Inl e \<Rightarrow>
        convert_message_params messages = Inl e \<or>
        convert_message_params messages = Inr [] \<and> e = IndexError
    | Inr (create, template, messages', types, call_kwargs) \<Rightarrow>
        ''tools'' \<notin> dom call_kwargs)"
proof (cases "convert_message_params messages")
  case (Inl e)
  then show ?thesis by (simp add: mistral_setup_call_def)
next
  case (Inr ms)
  show ?thesis
  proof (cases "ms = []")
    case True
    with Inr show ?thesis
      by (simp add: mistral_setup_call_def mistral_modes_json_mode)
  next
    case False
    from mistral_modes_json_mode_returns[OF False] obtain ms' kw' where
      r: "mistral_modes json_mode_content ms tool_types' base_call_kwargs True extract' =
            Inr (ms', kw')" by fastforce
    from mistral_modes_json_mode_tools[OF r] have "kw' ''tools'' = None" .
    with Inr r show ?thesis
      by (simp add: mistral_setup_call_def Let_def dom_def)
  qed
qed

lemma vertex_setup_call_json_mode_returns:
  "(case vertex_setup_call json_mode_content convert
           (prompt_template, vmessages, tool_types', base_call_kwargs)
           model client' fn_is_async True extract' of
      Inl e \<Rightarrow>
        convert vmessages = Inl e \<or>
        set_response_mime_type (base_call_kwargs ''generation_config'') = Inl e \<or>
        convert vmessages = Inr [] \<and> e = IndexError \<or>
        (\<exists>ms. convert vmessages = Inr ms \<and> ms \<noteq> [] \<and>
           append_part (last ms)
             (PartStr (json_mode_content (first_tool_type tool_types'))) = Inl e)
    | Inr (create, template, messages', types, call_kwargs) \<Rightarrow>
        ''tools'' \<notin> dom call_kwargs)"
proof (cases "convert vmessages")
  case (Inl e)
  then show ?thesis by (simp add: vertex_setup_call_def)
next
  case (Inr ms)
  show ?thesis
  proof (cases "vertex_modes json_mode_content ms tool_types' base_call_kwargs True extract'")
    case (Inl e)
    then have "set_response_mime_type (base_call_kwargs ''generation_config'') = Inl e \<or>
        ms = [] \<and> e = IndexError \<or>
        ms \<noteq> [] \<and>
        append_part (last ms)
          (PartStr (json_mode_content (first_tool_type tool_types'))) = Inl e"
      by (auto simp: vertex_modes_json_mode split: sum.splits if_splits)
    with Inr Inl show ?thesis
      by (auto simp: vertex_setup_call_def)
  next
    case r: (Inr result)
    obtain ms' kw' where result: "result = (ms', kw')" by (cases result)
    from vertex_modes_json_mode_tools[OF r[unfolded result]] have "kw' ''tools'' = None" .
    with Inr r result show ?thesis
      by (simp add: vertex_setup_call_def Let_def dom_def)
  qed
qed

text \<open>
  C2. With json_mode=True, the call kwargs that the setup_call of Mistral and of Vertex
  returns have no tools key, whatever the base call kwargs held.
\<close>

theorem setup_call_json_mode_drops_tools:
  "(mistral_setup_call json_mode_content environ
        (prompt_template, messages, tool_types', base_call_kwargs)
        model client' fn_is_async True extract' =
      Inr (create, template, messages', types, call_kwargs) \<longrightarrow>
    ''tools'' \<notin> dom call_kwargs) \<and>
   (vertex_setup_call json_mode_content convert
        (prompt_template, vmessages, tool_types', base_call_kwargs)
        model client' fn_is_async True extract' =
      Inr (vcreate, vtemplate, vmessages', vtypes, vcall_kwargs) \<longrightarrow>
    ''tools'' \<notin> dom vcall_kwargs)"
proof (intro conjI impI)
  assume "mistral_setup_call json_mode_content environ
        (prompt_template, messages, tool_types', base_call_kwargs)
        model client' fn_is_async True extract' =
      Inr (create, template, messages', types, call_kwargs)"
  with mistral_setup_call_json_mode_returns
         [where json_mode_content = json_mode_content and environ = environ
            and prompt_template = prompt_template and messages = messages
            and tool_types' = tool_types' and base_call_kwargs = base_call_kwargs
            and model = model and client' = client' and fn_is_async = fn_is_async
            and extract' = extract']
  show "''tools'' \<notin> dom call_kwargs" by simp
next
  assume "vertex_setup_call json_mode_content convert
        (prompt_template, vmessages, tool_types', base_call_kwargs)
        model client' fn_is_async True extract' =
      Inr (vcreate, vtemplate, vmessages', vtypes, vcall_kwargs)"
  with vertex_setup_call_json_mode_returns
         [where json_mode_content = json_mode_content and convert = convert
            and prompt_template = prompt_template and vmessages = vmessages
            and tool_types' = tool_types' and base_call_kwargs = base_call_kwargs
            and model = model and client' = client' and fn_is_async = fn_is_async
            and extract' = extract']
  show "''tools'' \<notin> dom vcall_kwargs" by simp
qed

text \<open>
  Two calls that return: the base call kwargs hold a tool list, the returned ones do
  not. (The Vertex call is given dict messages; with Content objects it raises, see
  below.)
\<close>

theorem setup_call_json_mode_drops_tools_witness:
  "example_call_kwargs ''tools'' = Some (Tools [BaseTool ''Book'']) \<and>
   mistral_setup_call example_json_mode_content example_environ
       (None, [BaseMessageParam ''user'' (Str ''Recommend a book'')],
        Some [BaseTool ''Book''], example_call_kwargs)
       ''mistral-large-latest'' None False True False =
     Inr (get_create_fn (Mistral ''secret''), None,
          [BaseMessageParam ''user''
             (''Recommend a book'' @ CHR 0x0A # CHR 0x0A #
              ''Extract a valid JSON object instance from the content.'')],
          Some [BaseTool ''Book''],
          example_call_kwargs
            (''response_format'' \<mapsto> ResponseFormat ''json_object'', ''tools'' := None,
             ''model'' \<mapsto> Model ''mistral-large-latest'',
             ''messages'' \<mapsto> Messages
                [BaseMessageParam ''user''
                   (''Recommend a book'' @ CHR 0x0A # CHR 0x0A #
                    ''Extract a valid JSON object instance from the content.'')])) \<and>
   ''tools'' \<notin> dom
      (example_call_kwargs
         (''response_format'' \<mapsto> ResponseFormat ''json_object'', ''tools'' := None,
          ''model'' \<mapsto> Model ''mistral-large-latest'',
          ''messages'' \<mapsto> Messages
             [BaseMessageParam ''user''
                (''Recommend a book'' @ CHR 0x0A # CHR 0x0A #
                 ''Extract a valid JSON object instance from the content.'')])) \<and>
   vertex_setup_call example_json_mode_content example_convert_dict
       (None, [(''user'', ''Recommend a book'')], Some [BaseTool ''Book''], example_call_kwargs)
       ''gemini-1.5-flash'' (Some (Client ''given'')) False True False =
     Inr (get_create_fn (Client ''given''), None,
          [ContentDict ''user''
             [PartStr ''Recommend a book'',
              PartStr (CHR 0x0A # CHR 0x0A #
                       ''Extract a valid JSON object instance from the content.'')]],
          Some [BaseTool ''Book''],
          example_call_kwargs
            (''generation_config'' \<mapsto>
               GenerationConfigDict [''response_mime_type'' \<mapsto> ''application/json''],
             ''tools'' := None,
             ''contents'' \<mapsto> Contents
                [ContentDict ''user''
                   [PartStr ''Recommend a book'',
                    PartStr (CHR 0x0A # CHR 0x0A #
                             ''Extract a valid JSON object instance from the content.'')]])) \<and>
   ''tools'' \<notin> dom
      (example_call_kwargs
         (''generation_config'' \<mapsto>
            GenerationConfigDict [''response_mime_type'' \<mapsto> ''application/json''],
          ''tools'' := None,
          ''contents'' \<mapsto> Contents
             [ContentDict ''user''
                [PartStr ''Recommend a book'',
                 PartStr (CHR 0x0A # CHR 0x0A #
                          ''Extract a valid JSON object instance from the content.'')]]))"
  using
    setup_call_json_mode_drops_tools
      [where json_mode_content = example_json_mode_content and environ = example_environ
         and prompt_template = None
         and messages = "[BaseMessageParam ''user'' (Str ''Recommend a book'')]"
         and tool_types' = "Some [BaseTool ''Book'']"
         and base_call_kwargs = example_call_kwargs
         and model = "''mistral-large-latest''" and client' = None and fn_is_async = False
         and extract' = False
         and create = "get_create_fn (Mistral ''secret'')" and template = None
         and messages' = "[BaseMessageParam ''user''
             (''Recommend a book'' @ CHR 0x0A # CHR 0x0A #
              ''Extract a valid JSON object instance from the content.'')]"
         and types = "Some [BaseTool ''Book'']"
         and call_kwargs = "example_call_kwargs
            (''response_format'' \<mapsto> ResponseFormat ''json_object'', ''tools'' := None,
             ''model'' \<mapsto> Model ''mistral-large-latest'',
             ''messages'' \<mapsto> Messages
                [BaseMessageParam ''user''
                   (''Recommend a book'' @ CHR 0x0A # CHR 0x0A #
                    ''Extract a valid JSON object instance from the content.'')])"
         and convert = example_convert_dict
         and vmessages = "[(''user'', ''Recommend a book'')]"
         and vcreate = "get_create_fn (Client ''given'')" and vtemplate = None
         and vmessages' = "[]" and vtypes = None and vcall_kwargs = example_call_kwargs]
    setup_call_json_mode_drops_tools
      [where json_mode_content = example_json_mode_content and environ = example_environ
         and prompt_template = None
         and messages = "[BaseMessageParam ''user'' (Str ''Recommend a book'')]"
         and tool_types' = "Some [BaseTool ''Book'']"
         and base_call_kwargs = example_call_kwargs
         and model = "''gemini-1.5-flash''" and client' = "Some (Client ''given'')"
         and fn_is_async = False and extract' = False
         and create = "get_create_fn (Client ''given'')" and template = None
         and messages' = "[]" and types = None and call_kwargs = example_call_kwargs
         and convert = example_convert_dict
         and vmessages = "[(''user'', ''Recommend a book'')]"
         and vcreate = "get_create_fn (Client ''given'')" and vtemplate = None
         and vmessages' = "[ContentDict ''user''
             [PartStr ''Recommend a book'',
              PartStr (CHR 0x0A # CHR 0x0A #
                       ''Extract a valid JSON object instance from the content.'')]]"
         and vtypes = "Some [BaseTool ''Book'']"
         and vcall_kwargs = "example_call_kwargs
            (''generation_config'' \<mapsto>
               GenerationConfigDict [''response_mime_type'' \<mapsto> ''application/json''],
             ''tools'' := None,
             ''contents'' \<mapsto> Contents
                [ContentDict ''user''
                   [PartStr ''Recommend a book'',
                    PartStr (CHR 0x0A # CHR 0x0A #
                             ''Extract a valid JSON object instance from the content.'')]])"]
  by (simp add: mistral_setup_call_def vertex_setup_call_def mistral_modes_json_mode
        vertex_modes_json_mode example_call_kwargs_def example_environ_def Let_def)







lemma mistral_setup_call_json_mode_injects:
  assumes "convert_message_params messages = Inr ms" and "ms \<noteq> []"
  shows "\<exists>ms' call_kwargs.
         returned_messages
           (mistral_setup_call json_mode_content environ
              (prompt_template, messages, tool_types', base_call_kwargs)
              model client' fn_is_async True extract') = Some ms' \<and>
         returned_call_kwargs
           (mistral_setup_call json_mode_content environ
              (prompt_template, messages, tool_types', base_call_kwargs)
              model client' fn_is_async True extract') = Some call_kwargs \<and>
         call_kwargs ''messages'' = Some (Messages ms') \<and>
         (if role (last ms) = ''user''
          then length ms' = length ms \<and> butlast ms' = butlast ms \<and>
               role (last ms') = ''user'' \<and>
               message_param_content (last ms') =
                 map_option (\<lambda>c. c @ json_mode_content (first_tool_type tool_types'))
                   (message_param_content (last ms))
          else ms' = ms @ [UserMessage (strip (json_mode_content (first_tool_type tool_types')))])"
proof (cases "role (last ms) = ''user''")
  case True
  from add_content_user[OF True, of "json_mode_content (first_tool_type tool_types')"]
  obtain m' where m':
    "add_content (last ms) (json_mode_content (first_tool_type tool_types')) = Inr m'"
    "role m' = ''user''"
    "message_param_content m' =
       map_option (\<lambda>c. c @ json_mode_content (first_tool_type tool_types'))
         (message_param_content (last ms))"
    by blast
  with assms True show ?thesis
    by (simp add: mistral_setup_call_def mistral_modes_json_mode Let_def)
next
  case False
  with assms show ?thesis
    by (simp add: mistral_setup_call_def mistral_modes_json_mode Let_def)
qed

lemma vertex_setup_call_json_mode_content_object:
  assumes "convert vmessages = Inr ms" and "ms \<noteq> []" and "last ms = Content r ps"
    and "set_response_mime_type (base_call_kwargs ''generation_config'') = Inr g"
  shows "vertex_setup_call json_mode_content convert
           (prompt_template, vmessages, tool_types', base_call_kwargs)
           model client' fn_is_async True extract' = Inl TypeError"
  using assms by (simp add: vertex_setup_call_def vertex_modes_json_mode)

text \<open>
  C7. The setup_call of Vertex does not inject the JSON-mode instruction: its converted
  messages are Content objects, and \<^verbatim>\<open>messages[-1]["parts"]\<close> raises TypeError, also
  when the last message has the role user. The setup_call of Mistral, given the same
  user message, appends the instruction to its content.
\<close>

theorem vertex_setup_call_json_mode_raises:
  "vertex_setup_call example_json_mode_content example_convert
       (None, [(''user'', ''Recommend a book'')], None, example_call_kwargs)
       ''gemini-1.5-flash'' None False True False =
     Inl TypeError \<and>
   returned_messages
     (mistral_setup_call example_json_mode_content example_environ
        (None, [BaseMessageParam ''user'' (Str ''Recommend a book'')], None, example_call_kwargs)
        ''mistral-large-latest'' None False True False) =
     Some [BaseMessageParam ''user''
             (''Recommend a book'' @ CHR 0x0A # CHR 0x0A #
              ''Extract a valid JSON object instance from the content.'')]"
  by (simp add: vertex_setup_call_def vertex_modes_json_mode mistral_setup_call_def
        mistral_modes_json_mode example_call_kwargs_def Let_def)

subsection \<open>The stream coordinator\<close>

lemma accumulated_content_receive:
  "accumulated_content (receive vb state chunk) = accumulated_content state @ content_delta chunk"
  by (simp add: receive_def Let_def split: option.splits prod.splits)

lemma accumulated_content_receive_all:
  "accumulated_content (receive_all vb state chunks) =
     accumulated_content state @ concat (map content_delta chunks)"
  by (induction chunks arbitrary: state) (simp_all add: accumulated_content_receive)

lemma in_progress_receive_no_fragment:
  "tool_call_delta chunk = None \<Longrightarrow>
     in_progress_tool_calls (receive vb state chunk) = in_progress_tool_calls state"
  by (simp add: receive_def Let_def)

lemma in_progress_receive_all_no_fragment:
  "\<forall>c\<in>set chunks. tool_call_delta c = None \<Longrightarrow>
     in_progress_tool_calls (receive_all vb state chunks) = in_progress_tool_calls state"
  by (induction chunks arbitrary: state) (simp_all add: in_progress_receive_no_fragment)

lemma tool_call_ready_all_valid:
  "\<forall>(j, b)\<in>set buffers. \<exists>call. vb b = Inr call \<Longrightarrow>
     fst (tool_call_ready vb (\<lambda>j. True) buffers) = []"
  by (induction buffers) (auto split: prod.splits sum.splits)

lemma terminal_Inr:
  "terminal vb state = Inr (state', m) \<Longrightarrow>
     assistant_role m = ''assistant'' \<and>
     assistant_content m = accumulated_content state \<and>
     accumulated_content state' = accumulated_content state \<and>
     in_progress_tool_calls state' = [] \<and>
     assistant_tool_calls m = completed_tool_calls state' \<and>
     (\<exists>last_calls. completed_tool_calls state' = completed_tool_calls state @ last_calls)"
  by (auto simp: terminal_def Let_def split: prod.splits list.splits)

lemma terminal_Inl: "terminal vb state = Inl e \<Longrightarrow> \<exists>b. e = ToolArgumentError b"
  by (auto simp: terminal_def Let_def split: prod.splits list.splits)

lemma terminal_returns:
  "fst (tool_call_ready vb (\<lambda>j. True) (in_progress_tool_calls state)) = [] \<Longrightarrow>
     \<exists>r. terminal vb state = Inr r"
  by (auto simp: terminal_def Let_def split: prod.splits list.splits)

text \<open>
  C4. For every finite sequence of chunks, the content accumulated by the stream
  coordinator is the concatenation, in order, of the chunks' content deltas, and
  accumulation distributes over the concatenation of chunk sequences. When the stream is
  consumed to exhaustion, the synthesized message has the role assistant, carries
  exactly that string and carries all completed tool calls (those completed while
  receiving, then those completed by the end of the stream). Exhaustion raises only
  ToolArgumentError, and only for an argument buffer that does not validate: a stream
  whose buffers all validate, in particular one without tool-call fragments, always
  yields the message.
\<close>

theorem stream_accumulation_concat:
  "accumulated_content (receive_all vb stream_start chunks) = concat (map content_delta chunks) \<and>
   accumulated_content (receive_all vb stream_start (xs @ ys)) =
     accumulated_content (receive_all vb stream_start xs) @
     accumulated_content (receive_all vb stream_start ys) \<and>
   (\<forall>state m. consume vb chunks = Inr (state, m) \<longrightarrow>
      accumulated_content state = concat (map content_delta chunks) \<and>
      assistant_role m = ''assistant'' \<and>
      assistant_content m = concat (map content_delta chunks) \<and>
      assistant_tool_calls m = completed_tool_calls state \<and>
      (\<exists>last_calls.
         completed_tool_calls state =
           completed_tool_calls (receive_all vb stream_start chunks) @ last_calls)) \<and>
   (\<forall>e. consume vb chunks = Inl e \<longrightarrow> (\<exists>b. e = ToolArgumentError b)) \<and>
   ((\<forall>(j, b)\<in>set (in_progress_tool_calls (receive_all vb stream_start chunks)).
       \<exists>call. vb b = Inr call) \<longrightarrow>
    (\<exists>r. consume vb chunks = Inr r)) \<and>
   ((\<forall>c\<in>set chunks. tool_call_delta c = None) \<longrightarrow> (\<exists>r. consume vb chunks = Inr r))"
proof (intro conjI allI impI)
  show "accumulated_content (receive_all vb stream_start chunks) =
      concat (map content_delta chunks)"
    by (simp add: accumulated_content_receive_all stream_start_def)
  show "accumulated_content (receive_all vb stream_start (xs @ ys)) =
      accumulated_content (receive_all vb stream_start xs) @
      accumulated_content (receive_all vb stream_start ys)"
    by (simp add: accumulated_content_receive_all stream_start_def)
next
  fix state m
  assume "consume vb chunks = Inr (state, m)"
  then have t: "terminal vb (receive_all vb stream_start chunks) = Inr (state, m)"
    by (simp add: consume_def)
  have c: "accumulated_content (receive_all vb stream_start chunks) =
      concat (map content_delta chunks)"
    by (simp add: accumulated_content_receive_all stream_start_def)
  from terminal_Inr[OF t] c
  show "accumulated_content state = concat (map content_delta chunks)"
    and "assistant_role m = ''assistant''"
    and "assistant_content m = concat (map content_delta chunks)"
    and "assistant_tool_calls m = completed_tool_calls state"
    and "\<exists>last_calls.
         completed_tool_calls state =
           completed_tool_calls (receive_all vb stream_start chunks) @ last_calls"
    by simp_all
next
  fix e
  assume "consume vb chunks = Inl e"
  then show "\<exists>b. e = ToolArgumentError b"
    by (simp add: consume_def terminal_Inl)
next
  assume "\<forall>(j, b)\<in>set (in_progress_tool_calls (receive_all vb stream_start chunks)).
       \<exists>call. vb b = Inr call"
  then have "fst (tool_call_ready vb (\<lambda>j. True)
      (in_progress_tool_calls (receive_all vb stream_start chunks))) = []"
    by (rule tool_call_ready_all_valid)
  then show "\<exists>r. consume vb chunks = Inr r"
    unfolding consume_def by (rule terminal_returns)
next
  assume "\<forall>c\<in>set chunks. tool_call_delta c = None"
  then have "in_progress_tool_calls (receive_all vb stream_start chunks) = []"
    by (simp add: in_progress_receive_all_no_fragment stream_start_def)
  then have "fst (tool_call_ready vb (\<lambda>j. True)
      (in_progress_tool_calls (receive_all vb stream_start chunks))) = []"
    by simp
  then show "\<exists>r. consume vb chunks = Inr r"
    unfolding consume_def by (rule terminal_returns)
qed

text \<open>
  The two streams of the specification's examples and of the test: "Hello" and
  " world" with a tool call split into two fragments, and one content chunk followed by
  a chunk that carries a whole tool call and the usage.
\<close>

theorem stream_accumulation_concat_witness:
  "consume braces
     [\<lparr>content_delta = ''Hello'', tool_call_delta = None, delta_finish_reason = None,
       delta_usage = None\<rparr>,
      \<lparr>content_delta = '' world'',
       tool_call_delta =
         Some \<lparr>call_index = 0, arguments_text = ''{tit'', terminal_marker = False\<rparr>,
       delta_finish_reason = None, delta_usage = None\<rparr>,
      \<lparr>content_delta = '''',
       tool_call_delta =
         Some \<lparr>call_index = 0, arguments_text = ''le: Dune}'', terminal_marker = False\<rparr>,
       delta_finish_reason = Some ''stop'', delta_usage = Some (1 :: nat, 1 :: nat)\<rparr>] =
     Inr (\<lparr>accumulated_content = ''Hello world'', in_progress_tool_calls = [],
           completed_tool_calls = [''{title: Dune}''],
           final_usage = Some (1, 1), final_finish_reason = Some ''stop''\<rparr>,
          \<lparr>assistant_role = ''assistant'', assistant_content = ''Hello world'',
           assistant_tool_calls = [''{title: Dune}'']\<rparr>) \<and>
   consume braces
     [\<lparr>content_delta = ''content'', tool_call_delta = None, delta_finish_reason = None,
       delta_usage = None\<rparr>,
      \<lparr>content_delta = '''',
       tool_call_delta =
         Some \<lparr>call_index = 0, arguments_text = ''{title: The Name of the Wind}'',
               terminal_marker = True\<rparr>,
       delta_finish_reason = None, delta_usage = Some (1 :: nat, 1 :: nat)\<rparr>] =
     Inr (\<lparr>accumulated_content = ''content'', in_progress_tool_calls = [],
           completed_tool_calls = [''{title: The Name of the Wind}''],
           final_usage = Some (1, 1), final_finish_reason = None\<rparr>,
          \<lparr>assistant_role = ''assistant'', assistant_content = ''content'',
           assistant_tool_calls = [''{title: The Name of the Wind}'']\<rparr>)"
  using
    stream_accumulation_concat
      [of braces
          "[\<lparr>content_delta = ''Hello'', tool_call_delta = None, delta_finish_reason = None,
             delta_usage = None\<rparr>,
            \<lparr>content_delta = '' world'',
             tool_call_delta =
               Some \<lparr>call_index = 0, arguments_text = ''{tit'', terminal_marker = False\<rparr>,
             delta_finish_reason = None, delta_usage = None\<rparr>,
            \<lparr>content_delta = '''',
             tool_call_delta =
               Some \<lparr>call_index = 0, arguments_text = ''le: Dune}'', terminal_marker = False\<rparr>,
             delta_finish_reason = Some ''stop'', delta_usage = Some (1 :: nat, 1 :: nat)\<rparr>]"
          "[]" "[]"]
    stream_accumulation_concat
      [of braces
          "[\<lparr>content_delta = ''content'', tool_call_delta = None, delta_finish_reason = None,
             delta_usage = None\<rparr>,
            \<lparr>content_delta = '''',
             tool_call_delta =
               Some \<lparr>call_index = 0, arguments_text = ''{title: The Name of the Wind}'',
                     terminal_marker = True\<rparr>,
             delta_finish_reason = None, delta_usage = Some (1 :: nat, 1 :: nat)\<rparr>]"
          "[]" "[]"]
  by (simp add: consume_def terminal_def receive_def braces_def stream_start_def Let_def)

end
